theory Spec2Isabelle
  imports Main "HOL-Library.AList" "HOL-Library.Sublist"
begin

section \<open>JavaScript values\<close>

text \<open>
  The host process of \<open>src/electron/main.ts\<close> handles loosely typed data: message
  payloads, the contents of project files and the records of the user store are plain
  JSON-like values. An object is an association list whose first binding of a key is the
  value of that property; numbers are opaque to the program and are kept as integers.
\<close>

datatype json =
    JUndefined
  | JNull
  | JBool bool
  | JNum int
  | JStr string
  | JArr "json list"
  | JObj "(string \<times> json) list"

type_synonym obj = "(string \<times> json) list"

datatype js_error = TypeError | SyntaxError | IOError

text \<open>The \<open>typeof\<close> operator: \<open>null\<close> and arrays are of type \<open>object\<close>.\<close>

fun typeof :: "json \<Rightarrow> string" where
  "typeof JUndefined = ''undefined''"
| "typeof JNull = ''object''"
| "typeof (JBool b) = ''boolean''"
| "typeof (JNum n) = ''number''"
| "typeof (JStr s) = ''string''"
| "typeof (JArr xs) = ''object''"
| "typeof (JObj kvs) = ''object''"

text \<open>Truthiness, as tested by \<open>if (v)\<close>, \<open>!v\<close> and \<open>v || w\<close>.\<close>

fun truthy :: "json \<Rightarrow> bool" where
  "truthy JUndefined = False"
| "truthy JNull = False"
| "truthy (JBool b) = b"
| "truthy (JNum n) = (n \<noteq> 0)"
| "truthy (JStr s) = (s \<noteq> [])"
| "truthy (JArr xs) = True"
| "truthy (JObj kvs) = True"

text \<open>
  Reading a property \<open>v.k\<close>, for the property names the program reads (\<open>path\<close>, \<open>id\<close>,
  \<open>type\<close>, \<open>payload\<close>, \<open>project\<close>, \<open>content\<close>): \<open>null\<close> and \<open>undefined\<close> raise a
  TypeError, an object yields the property or \<open>undefined\<close>, and arrays and primitives
  own none of these names.
\<close>

definition field :: "obj \<Rightarrow> string \<Rightarrow> json" where
  "field kvs k = (case map_of kvs k of None \<Rightarrow> JUndefined | Some v \<Rightarrow> v)"

fun get_prop :: "json \<Rightarrow> string \<Rightarrow> js_error + json" where
  "get_prop JUndefined k = Inl TypeError"
| "get_prop JNull k = Inl TypeError"
| "get_prop (JObj kvs) k = Inr (field kvs k)"
| "get_prop v k = Inr JUndefined"

text \<open>
  Strict equality \<open>===\<close> between a value read from one object graph and a value of
  another: primitives compare by value, objects and arrays by reference, and two
  separately built graphs share no reference.
\<close>

fun strict_eq :: "json \<Rightarrow> json \<Rightarrow> bool" where
  "strict_eq JUndefined JUndefined = True"
| "strict_eq JNull JNull = True"
| "strict_eq (JBool a) (JBool b) = (a = b)"
| "strict_eq (JNum a) (JNum b) = (a = b)"
| "strict_eq (JStr a) (JStr b) = (a = b)"
| "strict_eq v w = False"

text \<open>\<open>Array.prototype.filter\<close> and \<open>find\<close> with a callback that may raise.\<close>

fun filterE :: "('a \<Rightarrow> js_error + bool) \<Rightarrow> 'a list \<Rightarrow> js_error + 'a list" where
  "filterE p [] = Inr []"
| "filterE p (x # xs) =
     (case p x of
        Inl e \<Rightarrow> Inl e
      | Inr b \<Rightarrow> (case filterE p xs of
                   Inl e \<Rightarrow> Inl e
                 | Inr ys \<Rightarrow> Inr (if b then x # ys else ys)))"

fun findE :: "('a \<Rightarrow> js_error + bool) \<Rightarrow> 'a list \<Rightarrow> js_error + 'a option" where
  "findE p [] = Inr None"
| "findE p (x # xs) =
     (case p x of
        Inl e \<Rightarrow> Inl e
      | Inr b \<Rightarrow> if b then Inr (Some x) else findE p xs)"

text \<open>
  \<open>v.filter(p)\<close> on a value of the user store: only an array has the method; calling it
  on any other value that passed \<open>|| []\<close> raises a TypeError.
\<close>

fun array_filter :: "(json \<Rightarrow> js_error + bool) \<Rightarrow> json \<Rightarrow> js_error + json list" where
  "array_filter p (JArr xs) = filterE p xs"
| "array_filter p v = Inl TypeError"

subsection \<open>lodash: \<open>isEqual\<close> and \<open>uniqWith\<close>\<close>

text \<open>
  Deep structural equality: arrays are compared element by element in order, objects by
  their number of own keys and, key by key, their values, whatever the order of the keys.
\<close>

function (sequential) isEqual :: "json \<Rightarrow> json \<Rightarrow> bool" where
  "isEqual (JObj a) (JObj b) =
     (length (remdups (map fst a)) = length (remdups (map fst b)) \<and>
      list_all (\<lambda>k. case map_of a k of
                      None \<Rightarrow> False
                    | Some v \<Rightarrow> (case map_of b k of None \<Rightarrow> False | Some w \<Rightarrow> isEqual v w))
               (map fst a))"
| "isEqual (JArr xs) (JArr ys) = list_all2 isEqual xs ys"
| "isEqual x y = (x = y)"
  by pat_completeness auto
termination
proof -
  have field_smaller: "size v < Suc (size_list (size_prod (\<lambda>_. 0) size) a)"
    if "map_of a k = Some v" for a :: obj and k v
    using that by (induction a) (auto split: if_splits)
  have element_smaller: "size z < Suc (size_list size xs)"
    if "z \<in> set xs" for z :: json and xs
    using that by (induction xs) auto
  show ?thesis
    apply (relation "measure (\<lambda>(x, y). size x)")
      apply simp
     apply (auto dest: field_smaller element_smaller)
    done
qed

text \<open>
  \<open>arrayIncludesWith\<close> and \<open>baseUniq\<close> with a comparator: a value is kept unless the
  comparator relates it to a value already kept.
\<close>

fun arrayIncludesWith :: "'a list \<Rightarrow> 'a \<Rightarrow> ('a \<Rightarrow> 'a \<Rightarrow> bool) \<Rightarrow> bool" where
  "arrayIncludesWith [] v cmp = False"
| "arrayIncludesWith (x # xs) v cmp = (if cmp v x then True else arrayIncludesWith xs v cmp)"

fun baseUniq :: "('a \<Rightarrow> 'a \<Rightarrow> bool) \<Rightarrow> 'a list \<Rightarrow> 'a list \<Rightarrow> 'a list" where
  "baseUniq cmp [] result = result"
| "baseUniq cmp (v # vs) result =
     baseUniq cmp vs (if arrayIncludesWith result v cmp then result else result @ [v])"

definition uniqWith :: "'a list \<Rightarrow> ('a \<Rightarrow> 'a \<Rightarrow> bool) \<Rightarrow> 'a list" where
  "uniqWith array cmp = baseUniq cmp array []"

section \<open>Messages, state and effects\<close>

text \<open>The tags of \<open>ServerMessageType\<close> that \<open>main.ts\<close> names; any other tag is \<open>OtherMessageType\<close>.\<close>

datatype ServerMessageType =
    CheckForUpdatesRequest
  | AppLoaded
  | StartApp
  | CreateNewFileRequest
  | CreateNewFileResponse
  | OpenFileRequest
  | OpenFileResponse
  | AssetReadRequest
  | AssetReadResponse
  | Save
  | CreateScriptBundleRequest
  | CreateScriptBundleResponse
  | ExportHTML
  | ExportPDF
  | ExportPNG
  | ExportSketch
  | ConnectPatternLibraryRequest
  | ConnectPatternLibraryResponse
  | UpdatePatternLibraryRequest
  | ConnectedPatternLibraryNotification
  | CheckLibraryRequest
  | CheckLibraryResponse
  | UpdateMenu
  | ContextElementMenuRequest
  | ContentResponse
  | SketchExportResponse
  | SelectElement
  | UnselectElement
  | HighlightElement
  | OtherMessageType string

record ServerMessage =
  msg_id :: json
  msg_type :: ServerMessageType
  msg_payload :: json

text \<open>
  The mutable state of the host process: the module variables \<open>win\<close> and \<open>projectPath\<close>
  and the value kept under the key \<open>connections\<close> of the user store (\<open>undefined\<close> when
  the key was never set).
\<close>

record state =
  win :: bool
  projectPath :: "string option"
  connections :: json

text \<open>What a handler does to the outside, in the order in which it starts it.\<close>

datatype 'p effect =
    Send ServerMessage
  | CheckForUpdates
  | Persist string 'p
  | WriteFile json json
  | CreateApplicationMenu json
  | CreateElementContexMenu json

record 'p outcome =
  out_state :: state
  out_effects :: "'p effect list"
  out_thrown :: "js_error option"

definition finish :: "state \<Rightarrow> 'p effect list \<Rightarrow> 'p outcome" where
  "finish s es = \<lparr>out_state = s, out_effects = es, out_thrown = None\<rparr>"

definition throw :: "state \<Rightarrow> 'p effect list \<Rightarrow> js_error \<Rightarrow> 'p outcome" where
  "throw s es e = \<lparr>out_state = s, out_effects = es, out_thrown = Some e\<rparr>"

text \<open>The envelopes a handler emitted through \<open>send\<close>, in order.\<close>

fun sent :: "'p effect list \<Rightarrow> ServerMessage list" where
  "sent [] = []"
| "sent (Send m # es) = m # sent es"
| "sent (e # es) = sent es"

section \<open>The PatternLibrary and its identifier namespaces\<close>

text \<open>
  Modelled from the spec: the class \<open>PatternLibrary\<close> of \<open>src/model\<close> is missing from the
  sources. A namespace maps context ids to global ids; it is append-only, so it is kept
  as the list of its assignments in the order they were made. Global ids are opaque
  tokens, here natural numbers.
\<close>

type_synonym 'k namespace = "('k \<times> nat) list"

text \<open>
  Modelled from the spec: the allocation of a new global id, missing with
  \<open>PatternLibrary\<close>. The spec asks for a collision-free id; the next number above every
  id of the namespace is one.
\<close>

definition fresh_id :: "'k namespace \<Rightarrow> nat" where
  "fresh_id ns = Suc (fold max (map snd ns) 0)"

text \<open>
  Modelled from the spec: allocate-once, read-thereafter assignment, missing with
  \<open>PatternLibrary\<close>. A context id that has a global id keeps it; another one gets a
  fresh id, which is recorded.
\<close>

definition assign_id :: "'k namespace \<Rightarrow> 'k \<Rightarrow> nat \<times> 'k namespace" where
  "assign_id ns k =
     (case map_of ns k of
        Some g \<Rightarrow> (g, ns)
      | None \<Rightarrow> (fresh_id ns, ns @ [(k, fresh_id ns)]))"

text \<open>
  Modelled from the spec: the fields of \<open>PatternLibrary\<close>, its identity and its four
  namespaces. Properties, slots and enum options are assigned within a pattern, as the
  two-argument callbacks of \<open>main.ts\<close> show, so their context is the pair of the pattern
  id and the context id.
\<close>

record PatternLibrary =
  lib_id :: string
  patternIds :: "string namespace"
  propertyIds :: "(string \<times> string) namespace"
  slotIds :: "(string \<times> string) namespace"
  enumOptionIds :: "(string \<times> string) namespace"

text \<open>Modelled from the spec: \<open>PatternLibrary.getId\<close>, missing from the sources.\<close>

definition getId :: "PatternLibrary \<Rightarrow> string" where
  "getId library = lib_id library"

text \<open>Modelled from the spec: \<open>PatternLibrary.assignPatternId\<close>, missing from the sources.\<close>

definition assignPatternId :: "PatternLibrary \<Rightarrow> string \<Rightarrow> nat \<times> PatternLibrary" where
  "assignPatternId library contextId =
     (case assign_id (patternIds library) contextId of
        (g, ns) \<Rightarrow> (g, library\<lparr>patternIds := ns\<rparr>))"

text \<open>Modelled from the spec: \<open>PatternLibrary.assignPropertyId\<close>, missing from the sources.\<close>

definition assignPropertyId ::
  "PatternLibrary \<Rightarrow> string \<Rightarrow> string \<Rightarrow> nat \<times> PatternLibrary" where
  "assignPropertyId library patternId contextId =
     (case assign_id (propertyIds library) (patternId, contextId) of
        (g, ns) \<Rightarrow> (g, library\<lparr>propertyIds := ns\<rparr>))"

text \<open>Modelled from the spec: \<open>PatternLibrary.assignSlotId\<close>, missing from the sources.\<close>

definition assignSlotId ::
  "PatternLibrary \<Rightarrow> string \<Rightarrow> string \<Rightarrow> nat \<times> PatternLibrary" where
  "assignSlotId library patternId contextId =
     (case assign_id (slotIds library) (patternId, contextId) of
        (g, ns) \<Rightarrow> (g, library\<lparr>slotIds := ns\<rparr>))"

text \<open>Modelled from the spec: \<open>PatternLibrary.assignEnumOptionId\<close>, missing from the sources.\<close>

definition assignEnumOptionId ::
  "PatternLibrary \<Rightarrow> string \<Rightarrow> string \<Rightarrow> nat \<times> PatternLibrary" where
  "assignEnumOptionId library patternId contextId =
     (case assign_id (enumOptionIds library) (patternId, contextId) of
        (g, ns) \<Rightarrow> (g, library\<lparr>enumOptionIds := ns\<rparr>))"

subsection \<open>The callbacks handed to the Analyzer\<close>

text \<open>
  The second argument of \<open>Analyzer.analyze\<close>. In the source each callback closes over the
  handler's \<open>library\<close> object and may change it; here the library is passed in and
  returned.
\<close>

record callbacks =
  getGobalEnumOptionId :: "string \<Rightarrow> string \<Rightarrow> PatternLibrary \<Rightarrow> nat \<times> PatternLibrary"
  getGlobalPatternId :: "string \<Rightarrow> PatternLibrary \<Rightarrow> nat \<times> PatternLibrary"
  getGlobalPropertyId :: "string \<Rightarrow> string \<Rightarrow> PatternLibrary \<Rightarrow> nat \<times> PatternLibrary"
  getGlobalSlotId :: "string \<Rightarrow> string \<Rightarrow> PatternLibrary \<Rightarrow> nat \<times> PatternLibrary"

text \<open>The object literal of the \<open>ConnectPatternLibraryRequest\<close> case (lines 281 to 288).\<close>

definition connect_callbacks :: callbacks where
  "connect_callbacks =
     \<lparr>getGobalEnumOptionId = (\<lambda>patternId contextId library.
         assignEnumOptionId library patternId contextId),
      getGlobalPatternId = (\<lambda>contextId library. assignPatternId library contextId),
      getGlobalPropertyId = (\<lambda>patternId contextId library.
         assignPropertyId library patternId contextId),
      getGlobalSlotId = (\<lambda>patternId contextId library.
         assignSlotId library patternId contextId)\<rparr>"

text \<open>The object literal of the \<open>UpdatePatternLibraryRequest\<close> case (lines 316 to 323).\<close>

definition update_callbacks :: callbacks where
  "update_callbacks =
     \<lparr>getGobalEnumOptionId = (\<lambda>patternId contextId library.
         assignEnumOptionId library patternId contextId),
      getGlobalPatternId = (\<lambda>contextId library. assignPatternId library contextId),
      getGlobalPropertyId = (\<lambda>patternId contextId library.
         assignPropertyId library patternId contextId),
      getGlobalSlotId = (\<lambda>patternId contextId library.
         assignSlotId library patternId contextId)\<rparr>"

text \<open>
  Modelled from the spec: the module \<open>src/server/analyzer\<close> is missing from the sources.
  One run of the Analyzer bridge over a folder asks, through the callbacks it was given,
  for the global id of each pattern, property, slot and enum option it finds; which ones
  it finds is up to the external scanner and the folder.
\<close>

datatype id_request =
    PatternId string
  | PropertyId string string
  | SlotId string string
  | EnumOptionId string string

text \<open>Modelled from the spec: the Analyzer calling the callback that belongs to a request.\<close>

fun call_back :: "callbacks \<Rightarrow> id_request \<Rightarrow> PatternLibrary \<Rightarrow> nat \<times> PatternLibrary" where
  "call_back cbs (PatternId contextId) library = getGlobalPatternId cbs contextId library"
| "call_back cbs (PropertyId patternId contextId) library =
     getGlobalPropertyId cbs patternId contextId library"
| "call_back cbs (SlotId patternId contextId) library =
     getGlobalSlotId cbs patternId contextId library"
| "call_back cbs (EnumOptionId patternId contextId) library =
     getGobalEnumOptionId cbs patternId contextId library"

text \<open>
  Modelled from the spec: a run of the Analyzer bridge, missing with the analyzer. It
  answers the requests in order and returns every request with the global id it was
  given, and the library as the callbacks left it.
\<close>

fun analyze_run ::
  "callbacks \<Rightarrow> id_request list \<Rightarrow> PatternLibrary \<Rightarrow> (id_request \<times> nat) list \<times> PatternLibrary" where
  "analyze_run cbs [] library = ([], library)"
| "analyze_run cbs (r # rs) library =
     (case call_back cbs r library of
        (g, library') \<Rightarrow>
          (case analyze_run cbs rs library' of
             (answers, library'') \<Rightarrow> ((r, g) # answers, library'')))"

text \<open>Modelled from the spec: the global id a library holds for a request, if any.\<close>

fun assigned :: "PatternLibrary \<Rightarrow> id_request \<Rightarrow> nat option" where
  "assigned library (PatternId contextId) = map_of (patternIds library) contextId"
| "assigned library (PropertyId patternId contextId) =
     map_of (propertyIds library) (patternId, contextId)"
| "assigned library (SlotId patternId contextId) =
     map_of (slotIds library) (patternId, contextId)"
| "assigned library (EnumOptionId patternId contextId) =
     map_of (enumOptionIds library) (patternId, contextId)"

text \<open>
  Modelled from the spec: the four namespaces of the missing \<open>PatternLibrary\<close>. Two
  requests are in the same namespace when they ask for the same kind of id.
\<close>

fun same_namespace :: "id_request \<Rightarrow> id_request \<Rightarrow> bool" where
  "same_namespace (PatternId a) (PatternId b) = True"
| "same_namespace (PropertyId p a) (PropertyId q b) = True"
| "same_namespace (SlotId p a) (SlotId q b) = True"
| "same_namespace (EnumOptionId p a) (EnumOptionId q b) = True"
| "same_namespace r r' = False"

text \<open>
  Modelled from the spec: a namespace is collision-free when no two context ids share a
  global id.
\<close>

definition collision_free :: "'k namespace \<Rightarrow> bool" where
  "collision_free ns =
     list_all (\<lambda>(k, g). list_all (\<lambda>(k', g'). g = g' \<longrightarrow> k = k') ns) ns"

text \<open>
  Modelled from the spec: the invariant of the missing \<open>PatternLibrary\<close>, each of its
  four namespaces is collision-free.
\<close>

definition library_ok :: "PatternLibrary \<Rightarrow> bool" where
  "library_ok library =
     (collision_free (patternIds library) \<and> collision_free (propertyIds library) \<and>
      collision_free (slotIds library) \<and> collision_free (enumOptionIds library))"

section \<open>External collaborators\<close>

text \<open>
  \<open>Persistence.read\<close> resolves to a result whose \<open>state\<close> is \<open>PersistenceState.Error\<close>
  or not; the handlers read \<open>contents\<close>, a saved project (an object), only in the second
  case.
\<close>

datatype PersistenceResult = Success obj | Error json

text \<open>
  The completion callback of \<open>compiler.run\<close> receives an error, or none, and then the
  compiler's output file system answers \<open>readFileSync\<close>.
\<close>

datatype compile_result = CompileFailed json | CompileDone "string \<Rightarrow> json"

text \<open>
  What one run of the message handler gets from outside \<open>main.ts\<close>: the flags of the
  process, the answers of the native dialogs, the file system, and the modules of the
  repository that are imported but are not among the sources (\<open>Project\<close>, \<open>Persistence\<close>,
  \<open>Analyzer\<close>), taken as they are. \<open>'p\<close> is the class \<open>Project\<close>.
\<close>

record 'p collaborators =
  electronIsDev :: bool
  NODE_ENV_development :: bool
  port :: nat
  uuid_v4 :: string
  showSaveDialog :: "string option"
  showOpenDialog :: "string list option"
  Persistence_read :: "string \<Rightarrow> PersistenceResult"
  readFile :: "string \<Rightarrow> js_error + string"
  toString_base64 :: "string \<Rightarrow> string"
  MimeTypes_lookup :: "string \<Rightarrow> string option"
  compiler_run :: compile_result
  Fs_exists :: "json \<Rightarrow> bool"
  Project_create :: "string \<Rightarrow> string \<Rightarrow> 'p"
  Project_from :: "json \<Rightarrow> 'p"
  toJSON :: "'p \<Rightarrow> json"
  setPath :: "'p \<Rightarrow> json \<Rightarrow> 'p"
  getPath :: "'p \<Rightarrow> string"
  getPatternLibrary :: "'p \<Rightarrow> PatternLibrary"
  Analyzer_analyze :: "json \<Rightarrow> callbacks \<Rightarrow> PatternLibrary \<Rightarrow> json"

section \<open>The message handler of \<open>createWindow\<close>\<close>

text \<open>\<open>if (path)\<close> on a \<open>string | undefined\<close>: the empty string is falsy too.\<close>

fun truthy_path :: "string option \<Rightarrow> bool" where
  "truthy_path None = False"
| "truthy_path (Some p) = (p \<noteq> [])"

text \<open>\<open>Array.isArray(paths) ? paths[0] : undefined\<close>, on the answer of the open dialog.\<close>

fun first_path :: "string list option \<Rightarrow> string option" where
  "first_path None = None"
| "first_path (Some []) = None"
| "first_path (Some (p # ps)) = Some p"

text \<open>\<open>String(port)\<close>: the decimal digits of a number.\<close>

fun String_of :: "nat \<Rightarrow> string" where
  "String_of n =
     (if n < 10 then [char_of (48 + n)]
      else String_of (n div 10) @ [char_of (48 + n mod 10)])"

declare String_of.simps [simp del]

text \<open>\<open>userStore.get('connections') || []\<close>.\<close>

definition stored_connections :: "state \<Rightarrow> json" where
  "stored_connections s = (if truthy (connections s) then connections s else JArr [])"

text \<open>
  The callback of the two \<open>filter\<close> calls that drop malformed records (lines 307 to 308
  and line 338): \<open>typeof c === 'object' && typeof c.path === 'string' && typeof c.id === 'string'\<close>.
\<close>

definition is_connection :: "json \<Rightarrow> js_error + bool" where
  "is_connection c =
     (if typeof c \<noteq> ''object'' then Inr False
      else case get_prop c ''path'' of
             Inl e \<Rightarrow> Inl e
           | Inr p \<Rightarrow>
               if typeof p \<noteq> ''string'' then Inr False
               else case get_prop c ''id'' of
                      Inl e \<Rightarrow> Inl e
                    | Inr i \<Rightarrow> Inr (typeof i = ''string''))"

definition case_CheckForUpdatesRequest ::
  "'p collaborators \<Rightarrow> state \<Rightarrow> ServerMessage \<Rightarrow> 'p outcome" where
  "case_CheckForUpdatesRequest env s message =
     finish s (if win s then [CheckForUpdates] else [])"

definition case_AppLoaded :: "'p collaborators \<Rightarrow> state \<Rightarrow> ServerMessage \<Rightarrow> 'p outcome" where
  "case_AppLoaded env s message =
     (let opened =
        (if electronIsDev env \<and> truthy_path (projectPath s) then
           (case projectPath s of
              None \<Rightarrow> []
            | Some p \<Rightarrow>
                (case Persistence_read env p of
                   Error cause \<Rightarrow> []
                 | Success contents \<Rightarrow>
                     [Send \<lparr>msg_id = msg_id message, msg_type = OpenFileResponse,
                            msg_payload = JObj [(''path'', JStr p),
                              (''contents'', JObj (AList.update ''path'' (JStr p) contents))]\<rparr>]))
         else [])
      in finish s (opened @
           [Send \<lparr>msg_id = JStr (uuid_v4 env), msg_type = StartApp,
                  msg_payload = JStr (String_of (port env))\<rparr>]))"

definition case_CreateNewFileRequest ::
  "'p collaborators \<Rightarrow> state \<Rightarrow> ServerMessage \<Rightarrow> 'p outcome" where
  "case_CreateNewFileRequest env s message =
     (let path = showSaveDialog env;
          s' = (if electronIsDev env then s\<lparr>projectPath := path\<rparr> else s)
      in if truthy_path path then
           (case path of
              None \<Rightarrow> finish s' []
            | Some p \<Rightarrow>
                (let project = Project_create env ''Untitled Project'' p
                 in finish s'
                      [Persist p project,
                       Send \<lparr>msg_id = msg_id message, msg_type = CreateNewFileResponse,
                             msg_payload = JObj [(''path'', JStr p),
                                                 (''contents'', toJSON env project)]\<rparr>]))
         else finish s' [])"

definition case_OpenFileRequest ::
  "'p collaborators \<Rightarrow> state \<Rightarrow> ServerMessage \<Rightarrow> 'p outcome" where
  "case_OpenFileRequest env s message =
     (let paths = showOpenDialog env;
          path = first_path paths;
          s' = (if electronIsDev env then s\<lparr>projectPath := path\<rparr> else s)
      in if truthy_path path then
           (case path of
              None \<Rightarrow> finish s' []
            | Some p \<Rightarrow>
                (case Persistence_read env p of
                   Error cause \<Rightarrow> finish s' []
                 | Success contents \<Rightarrow>
                     finish s'
                       [Send \<lparr>msg_id = msg_id message, msg_type = OpenFileResponse,
                              msg_payload = JObj [(''path'', JStr p),
                                (''contents'', JObj (AList.update ''path'' (JStr p) contents))]\<rparr>]))
         else finish s' [])"

definition case_AssetReadRequest ::
  "'p collaborators \<Rightarrow> state \<Rightarrow> ServerMessage \<Rightarrow> 'p outcome" where
  "case_AssetReadRequest env s message =
     (case showOpenDialog env of
        None \<Rightarrow> finish s []
      | Some paths \<Rightarrow>
          (case paths of
             [] \<Rightarrow> finish s []
           | path # rest \<Rightarrow>
               if path = [] then finish s []
               else
                 (case readFile env path of
                    Inl e \<Rightarrow> throw s [] e
                  | Inr content \<Rightarrow>
                      (let mimeType =
                         (case MimeTypes_lookup env path of
                            None \<Rightarrow> ''application/octet-stream''
                          | Some t \<Rightarrow> if t = [] then ''application/octet-stream'' else t)
                       in finish s
                            [Send \<lparr>msg_id = msg_id message, msg_type = AssetReadResponse,
                                   msg_payload = JStr (''data:'' @ mimeType @ '';base64,'' @
                                                       toString_base64 env content)\<rparr>]))))"

definition case_Save :: "'p collaborators \<Rightarrow> state \<Rightarrow> ServerMessage \<Rightarrow> 'p outcome" where
  "case_Save env s message =
     (case get_prop (msg_payload message) ''project'' of
        Inl e \<Rightarrow> throw s [] e
      | Inr serialized \<Rightarrow>
          (case get_prop (msg_payload message) ''path'' of
             Inl e \<Rightarrow> throw s [] e
           | Inr path \<Rightarrow>
               (let project = setPath env (Project_from env serialized) path;
                    s' = (if NODE_ENV_development env
                          then s\<lparr>projectPath := Some (getPath env project)\<rparr> else s)
                in finish s' [Persist (getPath env project) project])))"

text \<open>\<open>Path.posix.join('/', `${name}.js`)\<close> for a plain file name.\<close>

definition bundle_path :: "string \<Rightarrow> string" where
  "bundle_path name = ''/'' @ name @ ''.js''"

definition case_CreateScriptBundleRequest ::
  "'p collaborators \<Rightarrow> state \<Rightarrow> ServerMessage \<Rightarrow> 'p outcome" where
  "case_CreateScriptBundleRequest env s message =
     (case compiler_run env of
        CompileFailed err \<Rightarrow> finish s []
      | CompileDone readFileSync \<Rightarrow>
          finish s
            [Send \<lparr>msg_id = msg_id message, msg_type = CreateScriptBundleResponse,
                   msg_payload = JArr (map (\<lambda>name.
                       JObj [(''name'', JStr name), (''path'', JStr (bundle_path name)),
                             (''contents'', readFileSync (bundle_path name))])
                     [''renderer'', ''preview''])\<rparr>])"

definition case_Export :: "'p collaborators \<Rightarrow> state \<Rightarrow> ServerMessage \<Rightarrow> 'p outcome" where
  "case_Export env s message =
     (case get_prop (msg_payload message) ''path'' of
        Inl e \<Rightarrow> throw s [] e
      | Inr path \<Rightarrow>
          (case get_prop (msg_payload message) ''content'' of
             Inl e \<Rightarrow> throw s [] e
           | Inr content \<Rightarrow> finish s [WriteFile path content]))"

definition case_ConnectPatternLibraryRequest ::
  "'p collaborators \<Rightarrow> state \<Rightarrow> ServerMessage \<Rightarrow> 'p outcome" where
  "case_ConnectPatternLibraryRequest env s message =
     (let paths = showOpenDialog env;
          path = first_path paths
      in if \<not> truthy_path path then finish s []
         else
           (case path of
              None \<Rightarrow> finish s []
            | Some p \<Rightarrow>
                (let project = Project_from env (msg_payload message);
                     library = getPatternLibrary env project;
                     analysis = Analyzer_analyze env (JStr p) connect_callbacks library
                 in finish s
                      [Send \<lparr>msg_id = msg_id message, msg_type = ConnectPatternLibraryResponse,
                             msg_payload = analysis\<rparr>])))"

definition case_UpdatePatternLibraryRequest ::
  "'p collaborators \<Rightarrow> state \<Rightarrow> ServerMessage \<Rightarrow> 'p outcome" where
  "case_UpdatePatternLibraryRequest env s message =
     (let project = Project_from env (msg_payload message);
          library = getPatternLibrary env project;
          id = getId library
      in case array_filter is_connection (stored_connections s) of
           Inl e \<Rightarrow> throw s [] e
         | Inr valid \<Rightarrow>
             (case findE (\<lambda>c. case get_prop c ''id'' of
                                 Inl e \<Rightarrow> Inl e
                               | Inr i \<Rightarrow> Inr (strict_eq i (JStr id))) valid of
                Inl e \<Rightarrow> throw s [] e
              | Inr None \<Rightarrow> finish s []
              | Inr (Some connection) \<Rightarrow>
                  (case get_prop connection ''path'' of
                     Inl e \<Rightarrow> throw s [] e
                   | Inr path \<Rightarrow>
                       (let analysis = Analyzer_analyze env path update_callbacks library
                        in finish s
                             [Send \<lparr>msg_id = msg_id message,
                                    msg_type = ConnectPatternLibraryResponse,
                                    msg_payload = analysis\<rparr>]))))"

definition case_ConnectedPatternLibraryNotification ::
  "'p collaborators \<Rightarrow> state \<Rightarrow> ServerMessage \<Rightarrow> 'p outcome" where
  "case_ConnectedPatternLibraryNotification env s message =
     (let previous = stored_connections s
      in case filterE is_connection
                (case previous of JArr xs \<Rightarrow> xs | v \<Rightarrow> [v]) of
           Inl e \<Rightarrow> throw s [] e
         | Inr previousConnections \<Rightarrow>
             finish (s\<lparr>connections :=
                        JArr (uniqWith (previousConnections @ [msg_payload message]) isEqual)\<rparr>)
                    [])"

text \<open>
  The body of \<open>forEach\<close> in the \<open>CheckLibraryRequest\<close> case: \<open>Fs.exists\<close> is started for
  each connection in turn, and its callback sends the reply. The replies are listed in
  the order in which the checks are started; the file system answers each in its own time.
\<close>

fun check_each ::
  "'p collaborators \<Rightarrow> ServerMessage \<Rightarrow> json list \<Rightarrow> 'p effect list \<times> js_error option" where
  "check_each env message [] = ([], None)"
| "check_each env message (connection # rest) =
     (case get_prop connection ''path'' of
        Inl e \<Rightarrow> ([], Some e)
      | Inr path \<Rightarrow>
          (case get_prop connection ''id'' of
             Inl e \<Rightarrow> ([], Some e)
           | Inr i \<Rightarrow>
               (case check_each env message rest of
                  (es, t) \<Rightarrow>
                    (Send \<lparr>msg_id = msg_id message, msg_type = CheckLibraryResponse,
                           msg_payload = JArr [JObj [(''id'', i), (''path'', path),
                             (''connected'', JBool (Fs_exists env path))]]\<rparr> # es, t))))"

definition case_CheckLibraryRequest ::
  "'p collaborators \<Rightarrow> state \<Rightarrow> ServerMessage \<Rightarrow> 'p outcome" where
  "case_CheckLibraryRequest env s message =
     (case array_filter (\<lambda>c. case get_prop c ''id'' of
                               Inl e \<Rightarrow> Inl e
                             | Inr i \<Rightarrow>
                                 (case get_prop (msg_payload message) ''id'' of
                                    Inl e \<Rightarrow> Inl e
                                  | Inr wanted \<Rightarrow> Inr (strict_eq i wanted)))
             (stored_connections s) of
        Inl e \<Rightarrow> throw s [] e
      | Inr matching \<Rightarrow>
          (case check_each env message matching of
             (es, None) \<Rightarrow> finish s es
           | (es, Some e) \<Rightarrow> throw s es e))"

definition case_UpdateMenu :: "'p collaborators \<Rightarrow> state \<Rightarrow> ServerMessage \<Rightarrow> 'p outcome" where
  "case_UpdateMenu env s message = finish s [CreateApplicationMenu (msg_payload message)]"

definition case_ContextElementMenuRequest ::
  "'p collaborators \<Rightarrow> state \<Rightarrow> ServerMessage \<Rightarrow> 'p outcome" where
  "case_ContextElementMenuRequest env s message =
     finish s [CreateElementContexMenu (msg_payload message)]"

text \<open>The \<open>switch (message.type)\<close> of the handler.\<close>

fun dispatch :: "'p collaborators \<Rightarrow> state \<Rightarrow> ServerMessage \<Rightarrow> 'p outcome" where
  "dispatch env s message =
     (case msg_type message of
        CheckForUpdatesRequest \<Rightarrow> case_CheckForUpdatesRequest env s message
      | AppLoaded \<Rightarrow> case_AppLoaded env s message
      | CreateNewFileRequest \<Rightarrow> case_CreateNewFileRequest env s message
      | OpenFileRequest \<Rightarrow> case_OpenFileRequest env s message
      | AssetReadRequest \<Rightarrow> case_AssetReadRequest env s message
      | Save \<Rightarrow> case_Save env s message
      | CreateScriptBundleRequest \<Rightarrow> case_CreateScriptBundleRequest env s message
      | ExportHTML \<Rightarrow> case_Export env s message
      | ExportPDF \<Rightarrow> case_Export env s message
      | ExportPNG \<Rightarrow> case_Export env s message
      | ExportSketch \<Rightarrow> case_Export env s message
      | ConnectPatternLibraryRequest \<Rightarrow> case_ConnectPatternLibraryRequest env s message
      | UpdatePatternLibraryRequest \<Rightarrow> case_UpdatePatternLibraryRequest env s message
      | ConnectedPatternLibraryNotification \<Rightarrow>
          case_ConnectedPatternLibraryNotification env s message
      | CheckLibraryRequest \<Rightarrow> case_CheckLibraryRequest env s message
      | UpdateMenu \<Rightarrow> case_UpdateMenu env s message
      | ContextElementMenuRequest \<Rightarrow> case_ContextElementMenuRequest env s message
      | _ \<Rightarrow> finish s [])"

text \<open>
  The handler registered with \<open>sender.receive\<close>: nothing for a missing message; otherwise
  the message itself is forwarded to the server first, and then the switch runs.
\<close>

definition receive_handler ::
  "'p collaborators \<Rightarrow> state \<Rightarrow> ServerMessage option \<Rightarrow> 'p outcome" where
  "receive_handler env s received =
     (case received of
        None \<Rightarrow> finish s []
      | Some message \<Rightarrow>
          (let out = dispatch env s message
           in out\<lparr>out_effects := Send message # out_effects out\<rparr>))"

text \<open>
  The replies of a handled message: what \<open>send\<close> emitted after the forwarded message.
\<close>

definition replies :: "'p collaborators \<Rightarrow> state \<Rightarrow> ServerMessage \<Rightarrow> ServerMessage list" where
  "replies env s message = tl (sent (out_effects (receive_handler env s (Some message))))"

section \<open>The relay of preview messages\<close>

text \<open>The tags of \<open>PreviewMessageType\<close> that the relay names.\<close>

datatype PreviewMessageType =
    Preview_ContentResponse
  | Preview_SketchExportResponse
  | Preview_SelectElement
  | Preview_UnselectElement
  | Preview_HighlightElement

datatype relay_effect =
    SenderSend ServerMessage
  | ConsoleError string
  | ConsoleErrorValue js_error

text \<open>The \<open>catch\<close> block: two lines on the console, and the handler returns.\<close>

definition caught :: "js_error \<Rightarrow> relay_effect list" where
  "caught err = [ConsoleError ''Error while receiving client message'', ConsoleErrorValue err]"

text \<open>
  The handler of \<open>client-message\<close>. The values of the enum \<open>PreviewMessageType\<close> are
  declared outside \<open>main.ts\<close> and \<open>JSON.parse\<close> is the platform's, so both are
  parameters: \<open>tag\<close> gives the string value of each enum member, \<open>JSON_parse\<close> the
  parsed envelope or the error it raises. The \<open>switch\<close> takes the first case whose value is
  strictly equal to \<open>message.type\<close>.
\<close>

definition client_message ::
  "(PreviewMessageType \<Rightarrow> string) \<Rightarrow> (string \<Rightarrow> js_error + json) \<Rightarrow> string \<Rightarrow> relay_effect list" where
  "client_message tag JSON_parse envelope =
     (case JSON_parse envelope of
        Inl err \<Rightarrow> caught err
      | Inr message \<Rightarrow>
          (case get_prop message ''type'' of
             Inl err \<Rightarrow> caught err
           | Inr t \<Rightarrow>
               if strict_eq t (JStr (tag Preview_ContentResponse)) then
                 (case get_prop message ''id'' of
                    Inl err \<Rightarrow> caught err
                  | Inr i \<Rightarrow>
                      (case get_prop message ''payload'' of
                         Inl err \<Rightarrow> caught err
                       | Inr p \<Rightarrow>
                           [SenderSend \<lparr>msg_id = i, msg_type = ContentResponse,
                                        msg_payload = p\<rparr>]))
               else if strict_eq t (JStr (tag Preview_SketchExportResponse)) then
                 (case get_prop message ''id'' of
                    Inl err \<Rightarrow> caught err
                  | Inr i \<Rightarrow>
                      (case get_prop message ''payload'' of
                         Inl err \<Rightarrow> caught err
                       | Inr p \<Rightarrow>
                           [SenderSend \<lparr>msg_id = i, msg_type = SketchExportResponse,
                                        msg_payload = p\<rparr>]))
               else if strict_eq t (JStr (tag Preview_SelectElement)) then
                 (case get_prop message ''id'' of
                    Inl err \<Rightarrow> caught err
                  | Inr i \<Rightarrow>
                      (case get_prop message ''payload'' of
                         Inl err \<Rightarrow> caught err
                       | Inr p \<Rightarrow>
                           [SenderSend \<lparr>msg_id = i, msg_type = SelectElement,
                                        msg_payload = p\<rparr>]))
               else if strict_eq t (JStr (tag Preview_UnselectElement)) then
                 (case get_prop message ''id'' of
                    Inl err \<Rightarrow> caught err
                  | Inr i \<Rightarrow>
                      [SenderSend \<lparr>msg_id = i, msg_type = UnselectElement,
                                   msg_payload = JUndefined\<rparr>])
               else if strict_eq t (JStr (tag Preview_HighlightElement)) then
                 (case get_prop message ''id'' of
                    Inl err \<Rightarrow> caught err
                  | Inr i \<Rightarrow>
                      (case get_prop message ''payload'' of
                         Inl err \<Rightarrow> caught err
                       | Inr p \<Rightarrow>
                           [SenderSend \<lparr>msg_id = i, msg_type = HighlightElement,
                                        msg_payload = p\<rparr>]))
               else []))"

text \<open>The primary message type each recognized preview tag is relayed under.\<close>

fun translated :: "PreviewMessageType \<Rightarrow> ServerMessageType" where
  "translated Preview_ContentResponse = ContentResponse"
| "translated Preview_SketchExportResponse = SketchExportResponse"
| "translated Preview_SelectElement = SelectElement"
| "translated Preview_UnselectElement = UnselectElement"
| "translated Preview_HighlightElement = HighlightElement"

section \<open>Notions used in the statements\<close>


text \<open>A stored record is well formed when its \<open>path\<close> and its \<open>id\<close> are strings.\<close>

definition well_formed :: "obj \<Rightarrow> bool" where
  "well_formed r = (typeof (field r ''path'') = ''string'' \<and> typeof (field r ''id'') = ''string'')"

text \<open>
  Modelled from the spec: several runs of the missing Analyzer bridge, one after the
  other, on the same library.
\<close>

fun analyze_runs ::
  "(callbacks \<times> id_request list) list \<Rightarrow> PatternLibrary \<Rightarrow>
     (id_request \<times> nat) list \<times> PatternLibrary" where
  "analyze_runs [] library = ([], library)"
| "analyze_runs ((cbs, reqs) # later) library =
     (case analyze_run cbs reqs library of
        (answers, library') \<Rightarrow>
          (case analyze_runs later library' of
             (answers', library'') \<Rightarrow> (answers @ answers', library'')))"

text \<open>
  The tag under which each request is answered: the \<open>type\<close> of the envelope that the
  case of that request passes to \<open>send\<close> with \<open>id: message.id\<close>.
\<close>

fun response_type :: "ServerMessageType \<Rightarrow> ServerMessageType" where
  "response_type CreateNewFileRequest = CreateNewFileResponse"
| "response_type OpenFileRequest = OpenFileResponse"
| "response_type AssetReadRequest = AssetReadResponse"
| "response_type CreateScriptBundleRequest = CreateScriptBundleResponse"
| "response_type ConnectPatternLibraryRequest = ConnectPatternLibraryResponse"
| "response_type UpdatePatternLibraryRequest = ConnectPatternLibraryResponse"
| "response_type CheckLibraryRequest = CheckLibraryResponse"
| "response_type t = t"

subsection \<open>An environment for the examples\<close>

text \<open>
  A development build in which a project is its serialized form, the save dialog answers
  \<open>/tmp/Untitled Project.alva\<close>, the open dialog answers \<open>/tmp/a.alva\<close>, that file
  holds a project, and \<open>/lib\<close> is the only folder that exists.
\<close>

definition demo_library :: PatternLibrary where
  "demo_library =
     \<lparr>lib_id = ''lib'', patternIds = [], propertyIds = [], slotIds = [], enumOptionIds = []\<rparr>"

definition demo_env :: "json collaborators" where
  "demo_env =
     \<lparr>electronIsDev = True,
      NODE_ENV_development = True,
      port = 1879,
      uuid_v4 = ''0000'',
      showSaveDialog = Some ''/tmp/Untitled Project.alva'',
      showOpenDialog = Some [''/tmp/a.alva''],
      Persistence_read = (\<lambda>p. if p = ''/tmp/a.alva'' then Success [(''name'', JStr ''A'')]
                               else Error (JStr ''ENOENT'')),
      readFile = (\<lambda>p. Inr ''abc''),
      toString_base64 = (\<lambda>b. ''YWJj''),
      MimeTypes_lookup = (\<lambda>p. Some ''image/png''),
      compiler_run = CompileFailed JNull,
      Fs_exists = (\<lambda>p. p = JStr ''/lib''),
      Project_create = (\<lambda>name path. JObj [(''name'', JStr name), (''path'', JStr path)]),
      Project_from = (\<lambda>j. j),
      toJSON = (\<lambda>p. p),
      setPath = (\<lambda>p path. p),
      getPath = (\<lambda>p. ''/tmp/a.alva''),
      getPatternLibrary = (\<lambda>p. demo_library),
      Analyzer_analyze = (\<lambda>path cbs library. JObj [(''path'', path)])\<rparr>"

definition demo_state :: state where
  "demo_state = \<lparr>win = True, projectPath = Some ''/tmp/old.alva'', connections = JUndefined\<rparr>"

definition demo_tag :: "PreviewMessageType \<Rightarrow> string" where
  "demo_tag t =
     (case t of
        Preview_ContentResponse \<Rightarrow> ''content-response''
      | Preview_SketchExportResponse \<Rightarrow> ''sketch-export-response''
      | Preview_SelectElement \<Rightarrow> ''select-element''
      | Preview_UnselectElement \<Rightarrow> ''unselect-element''
      | Preview_HighlightElement \<Rightarrow> ''highlight-element'')"

text \<open>
  The same build when the open dialog answers \<open>/tmp/a.png\<close> and that file cannot be
  read.
\<close>

definition demo_env_unreadable :: "json collaborators" where
  "demo_env_unreadable =
     demo_env\<lparr>showOpenDialog := Some [''/tmp/a.png''], readFile := (\<lambda>p. Inl IOError)\<rparr>"

text \<open>A parser that knows three envelopes and rejects every other text.\<close>

definition demo_parse :: "string \<Rightarrow> js_error + json" where
  "demo_parse envelope =
     (if envelope = ''select'' then
        Inr (JObj [(''type'', JStr ''select-element''), (''id'', JStr ''7''),
                   (''payload'', JStr ''element-1'')])
      else if envelope = ''unselect'' then
        Inr (JObj [(''type'', JStr ''unselect-element''), (''id'', JStr ''8''),
                   (''payload'', JStr ''element-1'')])
      else if envelope = ''null'' then Inr JNull
      else Inl SyntaxError)"

section \<open>The handler forwards, then replies\<close>

lemma sent_handler:
  "sent (out_effects (receive_handler env s (Some m))) = m # sent (out_effects (dispatch env s m))"
  by (simp add: receive_handler_def Let_def)

lemma replies_dispatch: "replies env s m = sent (out_effects (dispatch env s m))"
  by (simp add: replies_def sent_handler)

text \<open>
  Claim C7. A Create-new-file request whose save dialog yields a path makes the handler
  create the project \<open>Untitled Project\<close> at that path, persist it, and send exactly one
  \<open>CreateNewFileResponse\<close> with the request's id, whose payload holds the chosen path and
  the serialized form of the new project; when the dialog is cancelled nothing is
  persisted and no reply is sent.
\<close>

theorem create_new_file:
  "msg_type m = CreateNewFileRequest \<Longrightarrow>
     (\<forall>p. showSaveDialog env = Some p \<and> p \<noteq> [] \<longrightarrow>
        out_effects (receive_handler env s (Some m)) =
          [Send m,
           Persist p (Project_create env ''Untitled Project'' p),
           Send \<lparr>msg_id = msg_id m, msg_type = CreateNewFileResponse,
                 msg_payload = JObj [(''path'', JStr p),
                   (''contents'', toJSON env (Project_create env ''Untitled Project'' p))]\<rparr>] \<and>
        replies env s m =
          [\<lparr>msg_id = msg_id m, msg_type = CreateNewFileResponse,
            msg_payload = JObj [(''path'', JStr p),
              (''contents'', toJSON env (Project_create env ''Untitled Project'' p))]\<rparr>]) \<and>
     (showSaveDialog env = None \<longrightarrow>
        out_effects (receive_handler env s (Some m)) = [Send m] \<and> replies env s m = [])"
  by (auto simp: replies_dispatch receive_handler_def case_CreateNewFileRequest_def finish_def Let_def)

theorem create_new_file_witness:
  "replies demo_env demo_state
     \<lparr>msg_id = JStr ''1'', msg_type = CreateNewFileRequest, msg_payload = JUndefined\<rparr> =
     [\<lparr>msg_id = JStr ''1'', msg_type = CreateNewFileResponse,
       msg_payload = JObj [(''path'', JStr ''/tmp/Untitled Project.alva''),
         (''contents'', JObj [(''name'', JStr ''Untitled Project''),
                              (''path'', JStr ''/tmp/Untitled Project.alva'')])]\<rparr>] \<and>
   replies (demo_env\<lparr>showSaveDialog := None\<rparr>) demo_state
     \<lparr>msg_id = JStr ''1'', msg_type = CreateNewFileRequest, msg_payload = JUndefined\<rparr> = []"
  using create_new_file [of "\<lparr>msg_id = JStr ''1'', msg_type = CreateNewFileRequest, msg_payload = JUndefined\<rparr>" demo_env demo_state]
    create_new_file [of "\<lparr>msg_id = JStr ''1'', msg_type = CreateNewFileRequest, msg_payload = JUndefined\<rparr>" "demo_env\<lparr>showSaveDialog := None\<rparr>" demo_state]
  by (simp add: demo_env_def)

text \<open>
  Claim C3. For an Open-file request: when the dialog yields no path no reply is sent;
  when a path is chosen and \<open>Persistence.read\<close> answers with an error no reply is sent;
  when it answers with the contents, exactly one \<open>OpenFileResponse\<close> with the request's id
  is sent, and its contents are the contents read with the chosen path written into their
  \<open>path\<close> field.
\<close>

theorem open_file:
  "msg_type m = OpenFileRequest \<Longrightarrow>
     (\<not> truthy_path (first_path (showOpenDialog env)) \<longrightarrow> replies env s m = []) \<and>
     (\<forall>p cause. first_path (showOpenDialog env) = Some p \<and> p \<noteq> [] \<and>
        Persistence_read env p = Error cause \<longrightarrow> replies env s m = []) \<and>
     (\<forall>p contents. first_path (showOpenDialog env) = Some p \<and> p \<noteq> [] \<and>
        Persistence_read env p = Success contents \<longrightarrow>
        replies env s m =
           [\<lparr>msg_id = msg_id m, msg_type = OpenFileResponse,
             msg_payload = JObj [(''path'', JStr p),
               (''contents'', JObj (AList.update ''path'' (JStr p) contents))]\<rparr>] \<and>
        field (AList.update ''path'' (JStr p) contents) ''path'' = JStr p \<and>
        (\<forall>k. k \<noteq> ''path'' \<longrightarrow>
           field (AList.update ''path'' (JStr p) contents) k = field contents k))"
  by (auto simp: replies_dispatch case_OpenFileRequest_def finish_def Let_def field_def
      update_conv' split: option.splits)

theorem open_file_witness:
  "replies (demo_env\<lparr>showOpenDialog := None\<rparr>) demo_state
     \<lparr>msg_id = JStr ''2'', msg_type = OpenFileRequest, msg_payload = JUndefined\<rparr> = [] \<and>
   replies (demo_env\<lparr>showOpenDialog := Some [''/tmp/b.alva'']\<rparr>) demo_state
     \<lparr>msg_id = JStr ''2'', msg_type = OpenFileRequest, msg_payload = JUndefined\<rparr> = [] \<and>
   replies demo_env demo_state
      \<lparr>msg_id = JStr ''2'', msg_type = OpenFileRequest, msg_payload = JUndefined\<rparr> =
        [\<lparr>msg_id = JStr ''2'', msg_type = OpenFileResponse,
          msg_payload = JObj [(''path'', JStr ''/tmp/a.alva''),
            (''contents'', JObj [(''name'', JStr ''A''), (''path'', JStr ''/tmp/a.alva'')])]\<rparr>]"
  using open_file [of "\<lparr>msg_id = JStr ''2'', msg_type = OpenFileRequest, msg_payload = JUndefined\<rparr>" "demo_env\<lparr>showOpenDialog := None\<rparr>" demo_state]
    open_file [of "\<lparr>msg_id = JStr ''2'', msg_type = OpenFileRequest, msg_payload = JUndefined\<rparr>" "demo_env\<lparr>showOpenDialog := Some [''/tmp/b.alva'']\<rparr>" demo_state]
    open_file [of "\<lparr>msg_id = JStr ''2'', msg_type = OpenFileRequest, msg_payload = JUndefined\<rparr>" demo_env demo_state]
  by (simp add: demo_env_def)

text \<open>
  Claim C10. In development mode the Create-new-file and Open-file handlers store the
  answer of the dialog in \<open>projectPath\<close> before they test it, so a cancelled dialog
  clears the remembered path although nothing was created or opened.
\<close>

theorem dev_mode_remembers_dialog_result:
  "electronIsDev env \<Longrightarrow>
     (msg_type m = CreateNewFileRequest \<longrightarrow>
        projectPath (out_state (receive_handler env s (Some m))) = showSaveDialog env \<and>
        (showSaveDialog env = None \<longrightarrow>
           projectPath (out_state (receive_handler env s (Some m))) = None \<and>
           out_effects (receive_handler env s (Some m)) = [Send m])) \<and>
     (msg_type m = OpenFileRequest \<longrightarrow>
        projectPath (out_state (receive_handler env s (Some m))) = first_path (showOpenDialog env) \<and>
        (first_path (showOpenDialog env) = None \<longrightarrow>
           projectPath (out_state (receive_handler env s (Some m))) = None \<and>
           out_effects (receive_handler env s (Some m)) = [Send m]))"
  by (auto simp: receive_handler_def case_CreateNewFileRequest_def case_OpenFileRequest_def
      finish_def Let_def split: option.splits PersistenceResult.splits)

theorem dev_mode_remembers_dialog_result_witness:
  "projectPath demo_state = Some ''/tmp/old.alva'' \<and>
   projectPath (out_state (receive_handler (demo_env\<lparr>showSaveDialog := None\<rparr>) demo_state
     (Some \<lparr>msg_id = JStr ''3'', msg_type = CreateNewFileRequest, msg_payload = JUndefined\<rparr>))) = None \<and>
   projectPath (out_state (receive_handler (demo_env\<lparr>showOpenDialog := None\<rparr>) demo_state
     (Some \<lparr>msg_id = JStr ''3'', msg_type = OpenFileRequest, msg_payload = JUndefined\<rparr>))) = None"
  using dev_mode_remembers_dialog_result [of "demo_env\<lparr>showSaveDialog := None\<rparr>"
      "\<lparr>msg_id = JStr ''3'', msg_type = CreateNewFileRequest, msg_payload = JUndefined\<rparr>" demo_state]
    dev_mode_remembers_dialog_result [of "demo_env\<lparr>showOpenDialog := None\<rparr>"
      "\<lparr>msg_id = JStr ''3'', msg_type = OpenFileRequest, msg_payload = JUndefined\<rparr>" demo_state]
  by (simp add: demo_env_def demo_state_def)

section \<open>The Connection store\<close>


















lemma stored_connections_update [simp]:
  "stored_connections (s\<lparr>connections := JArr xs\<rparr>) = JArr xs"
  by (simp add: stored_connections_def)






section \<open>Allocate-once identifiers\<close>

lemma fold_max_ge: "(a::nat) \<le> fold max xs a"
proof (induction xs arbitrary: a)
  case Nil
  then show ?case by simp
next
  case (Cons x xs)
  have "a \<le> max x a" by simp
  also have "max x a \<le> fold max xs (max x a)" by (rule Cons.IH)
  finally show ?case by simp
qed

lemma fold_max_member: "(x::nat) \<in> set xs \<Longrightarrow> x \<le> fold max xs a"
proof (induction xs arbitrary: a)
  case Nil
  then show ?case by simp
next
  case (Cons y ys)
  show ?case
  proof (cases "x = y")
    case True
    have "max y a \<le> fold max ys (max y a)" by (rule fold_max_ge)
    with True show ?thesis by simp
  next
    case False
    with Cons show ?thesis by simp
  qed
qed

lemma fresh_id_new: "(k, g) \<in> set ns \<Longrightarrow> g < fresh_id ns"
  using fold_max_member [of g "map snd ns" 0] by (force simp: fresh_id_def)

lemma collision_free_iff:
  "collision_free ns = (\<forall>(k, g)\<in>set ns. \<forall>(k', g')\<in>set ns. g = g' \<longrightarrow> k = k')"
  by (auto simp: collision_free_def list_all_iff)

lemma assign_id_step:
  assumes "assign_id ns k = (g, ns')" and "collision_free ns"
  shows "collision_free ns' \<and> map_of ns' k = Some g \<and>
         (\<forall>k0 g0. map_of ns k0 = Some g0 \<longrightarrow> map_of ns' k0 = Some g0)"
proof (cases "map_of ns k")
  case None
  with assms(1) have g: "g = fresh_id ns" and ns': "ns' = ns @ [(k, g)]"
    by (auto simp: assign_id_def)
  have new: "\<forall>(k', g')\<in>set ns. g' \<noteq> g"
    using fresh_id_new [of _ _ ns] g by fastforce
  have "collision_free ns'"
    using assms(2) new unfolding ns' collision_free_iff by fastforce
  moreover have "map_of ns' k = Some g" using None by (simp add: ns' map_add_def)
  moreover have "\<forall>k0 g0. map_of ns k0 = Some g0 \<longrightarrow> map_of ns' k0 = Some g0"
    by (simp add: ns' map_add_def)
  ultimately show ?thesis by blast
next
  case (Some g')
  with assms show ?thesis by (simp add: assign_id_def)
qed

lemma collision_free_inj:
  "collision_free ns \<Longrightarrow> map_of ns k = Some g \<Longrightarrow> map_of ns k' = Some g \<Longrightarrow> k = k'"
  unfolding collision_free_iff by (fastforce dest: map_of_SomeD)

lemma callbacks_same: "update_callbacks = connect_callbacks"
  by (simp add: update_callbacks_def connect_callbacks_def)

lemma call_back_step:
  assumes "call_back connect_callbacks r library = (g, library')" and "library_ok library"
  shows "library_ok library' \<and> assigned library' r = Some g \<and>
         (\<forall>r0 g0. assigned library r0 = Some g0 \<longrightarrow> assigned library' r0 = Some g0)"
proof (cases r)
  case (PatternId c)
  obtain ns' where a: "assign_id (patternIds library) c = (g, ns')"
    and l: "library' = library\<lparr>patternIds := ns'\<rparr>"
    using assms(1) PatternId
    by (auto simp: connect_callbacks_def assignPatternId_def split: prod.splits)
  from assign_id_step [OF a] assms(2) have
    s: "collision_free ns' \<and> map_of ns' c = Some g \<and>
       (\<forall>k0 g0. map_of (patternIds library) k0 = Some g0 \<longrightarrow> map_of ns' k0 = Some g0)"
    by (simp add: library_ok_def)
  have "\<forall>r0 g0. assigned library r0 = Some g0 \<longrightarrow> assigned library' r0 = Some g0"
  proof (intro allI impI)
    fix r0 g0 assume "assigned library r0 = Some g0"
    then show "assigned library' r0 = Some g0" using s l by (cases r0) auto
  qed
  then show ?thesis using s l assms(2) PatternId by (simp add: library_ok_def)
next
  case (PropertyId p c)
  obtain ns' where a: "assign_id (propertyIds library) (p, c) = (g, ns')"
    and l: "library' = library\<lparr>propertyIds := ns'\<rparr>"
    using assms(1) PropertyId
    by (auto simp: connect_callbacks_def assignPropertyId_def split: prod.splits)
  from assign_id_step [OF a] assms(2) have
    s: "collision_free ns' \<and> map_of ns' (p, c) = Some g \<and>
       (\<forall>k0 g0. map_of (propertyIds library) k0 = Some g0 \<longrightarrow> map_of ns' k0 = Some g0)"
    by (simp add: library_ok_def)
  have "\<forall>r0 g0. assigned library r0 = Some g0 \<longrightarrow> assigned library' r0 = Some g0"
  proof (intro allI impI)
    fix r0 g0 assume "assigned library r0 = Some g0"
    then show "assigned library' r0 = Some g0" using s l by (cases r0) auto
  qed
  then show ?thesis using s l assms(2) PropertyId by (simp add: library_ok_def)
next
  case (SlotId p c)
  obtain ns' where a: "assign_id (slotIds library) (p, c) = (g, ns')"
    and l: "library' = library\<lparr>slotIds := ns'\<rparr>"
    using assms(1) SlotId
    by (auto simp: connect_callbacks_def assignSlotId_def split: prod.splits)
  from assign_id_step [OF a] assms(2) have
    s: "collision_free ns' \<and> map_of ns' (p, c) = Some g \<and>
       (\<forall>k0 g0. map_of (slotIds library) k0 = Some g0 \<longrightarrow> map_of ns' k0 = Some g0)"
    by (simp add: library_ok_def)
  have "\<forall>r0 g0. assigned library r0 = Some g0 \<longrightarrow> assigned library' r0 = Some g0"
  proof (intro allI impI)
    fix r0 g0 assume "assigned library r0 = Some g0"
    then show "assigned library' r0 = Some g0" using s l by (cases r0) auto
  qed
  then show ?thesis using s l assms(2) SlotId by (simp add: library_ok_def)
next
  case (EnumOptionId p c)
  obtain ns' where a: "assign_id (enumOptionIds library) (p, c) = (g, ns')"
    and l: "library' = library\<lparr>enumOptionIds := ns'\<rparr>"
    using assms(1) EnumOptionId
    by (auto simp: connect_callbacks_def assignEnumOptionId_def split: prod.splits)
  from assign_id_step [OF a] assms(2) have
    s: "collision_free ns' \<and> map_of ns' (p, c) = Some g \<and>
       (\<forall>k0 g0. map_of (enumOptionIds library) k0 = Some g0 \<longrightarrow> map_of ns' k0 = Some g0)"
    by (simp add: library_ok_def)
  have "\<forall>r0 g0. assigned library r0 = Some g0 \<longrightarrow> assigned library' r0 = Some g0"
  proof (intro allI impI)
    fix r0 g0 assume "assigned library r0 = Some g0"
    then show "assigned library' r0 = Some g0" using s l by (cases r0) auto
  qed
  then show ?thesis using s l assms(2) EnumOptionId by (simp add: library_ok_def)
qed

lemma analyze_run_step:
  "analyze_run connect_callbacks reqs library = (answers, library') \<Longrightarrow> library_ok library \<Longrightarrow>
     library_ok library' \<and>
     (\<forall>(r, g)\<in>set answers. assigned library' r = Some g) \<and>
     (\<forall>r0 g0. assigned library r0 = Some g0 \<longrightarrow> assigned library' r0 = Some g0)"
proof (induction reqs arbitrary: library answers library')
  case Nil
  then show ?case by simp
next
  case (Cons r rs)
  obtain g l1 where c: "call_back connect_callbacks r library = (g, l1)" by force
  obtain as l2 where a: "analyze_run connect_callbacks rs l1 = (as, l2)" by force
  from Cons.prems(1) c a have ans: "answers = (r, g) # as" and l: "library' = l2" by auto
  from call_back_step [OF c Cons.prems(2)] have
    s1: "library_ok l1" "assigned l1 r = Some g"
        "\<forall>r0 g0. assigned library r0 = Some g0 \<longrightarrow> assigned l1 r0 = Some g0"
    by blast+
  from Cons.IH [OF a s1(1)] have
    s2: "library_ok l2" "\<forall>(r, g)\<in>set as. assigned l2 r = Some g"
        "\<forall>r0 g0. assigned l1 r0 = Some g0 \<longrightarrow> assigned l2 r0 = Some g0"
    by blast+
  show ?case unfolding ans l using s1 s2 by auto
qed

lemma analyze_runs_step:
  "analyze_runs runs library = (answers, library') \<Longrightarrow> library_ok library \<Longrightarrow>
     \<forall>(cbs, reqs)\<in>set runs. cbs = connect_callbacks \<or> cbs = update_callbacks \<Longrightarrow>
     library_ok library' \<and>
     (\<forall>(r, g)\<in>set answers. assigned library' r = Some g) \<and>
     (\<forall>r0 g0. assigned library r0 = Some g0 \<longrightarrow> assigned library' r0 = Some g0)"
proof (induction runs arbitrary: library answers library')
  case Nil
  then show ?case by simp
next
  case (Cons run later)
  obtain cbs reqs where run: "run = (cbs, reqs)" by force
  with Cons.prems(3) have cbs: "cbs = connect_callbacks" by (auto simp: callbacks_same)
  obtain a1 l1 where f: "analyze_run connect_callbacks reqs library = (a1, l1)" by force
  obtain a2 l2 where r: "analyze_runs later l1 = (a2, l2)" by force
  from Cons.prems(1) run cbs f r have ans: "answers = a1 @ a2" and l: "library' = l2" by auto
  from analyze_run_step [OF f Cons.prems(2)] have
    s1: "library_ok l1" "\<forall>(r, g)\<in>set a1. assigned l1 r = Some g"
        "\<forall>r0 g0. assigned library r0 = Some g0 \<longrightarrow> assigned l1 r0 = Some g0"
    by blast+
  from Cons.prems(3) have "\<forall>(cbs, reqs)\<in>set later. cbs = connect_callbacks \<or> cbs = update_callbacks"
    by simp
  from Cons.IH [OF r s1(1) this] have
    s2: "library_ok l2" "\<forall>(r, g)\<in>set a2. assigned l2 r = Some g"
        "\<forall>r0 g0. assigned l1 r0 = Some g0 \<longrightarrow> assigned l2 r0 = Some g0"
    by blast+
  show ?case unfolding ans l using s1 s2 by fastforce
qed

lemma assigned_inj:
  "library_ok library \<Longrightarrow> same_namespace r r' \<Longrightarrow>
     assigned library r = Some g \<Longrightarrow> assigned library r' = Some g \<Longrightarrow> r = r'"
  by (cases r; cases r') (auto simp: library_ok_def dest: collision_free_inj)

text \<open>
  Claim C2. Over any sequence of runs of the Analyzer bridge on a collision-free
  library, each run with the callbacks of the Connect-pattern-library or of the
  Update-pattern-library handler: a context id gets the same global id every time it is
  asked for, no two context ids of one namespace ever get the same global id, and a
  context id the library already held keeps its global id, which no other context id of
  its namespace is given.
\<close>

theorem allocate_once:
  assumes "library_ok library"
    and "\<forall>(cbs, reqs)\<in>set runs. cbs = connect_callbacks \<or> cbs = update_callbacks"
    and "analyze_runs runs library = (answers, library')"
  shows "(\<forall>(r, g)\<in>set answers. \<forall>(r', g')\<in>set answers.
            (r' = r \<longrightarrow> g' = g) \<and> (same_namespace r r' \<and> g' = g \<longrightarrow> r' = r)) \<and>
         (\<forall>r g. assigned library r = Some g \<longrightarrow>
            (\<forall>(r', g')\<in>set answers.
               (r' = r \<longrightarrow> g' = g) \<and> (same_namespace r r' \<and> g' = g \<longrightarrow> r' = r))) \<and>
         library_ok library' \<and>
         (\<forall>(r, g)\<in>set answers. assigned library' r = Some g)"
proof -
  from analyze_runs_step [OF assms(3) assms(1) assms(2)] have
    ok: "library_ok library'" and
    ans: "\<forall>(r, g)\<in>set answers. assigned library' r = Some g" and
    kept: "\<forall>r0 g0. assigned library r0 = Some g0 \<longrightarrow> assigned library' r0 = Some g0"
    by blast+
  have pair: "(r' = r \<longrightarrow> g' = g) \<and> (same_namespace r r' \<and> g' = g \<longrightarrow> r' = r)"
    if "assigned library' r = Some g" "assigned library' r' = Some g'" for r g r' g'
    using that assigned_inj [OF ok, of r r' g] by auto
  have among: "\<forall>(r, g)\<in>set answers. \<forall>(r', g')\<in>set answers.
            (r' = r \<longrightarrow> g' = g) \<and> (same_namespace r r' \<and> g' = g \<longrightarrow> r' = r)"
  proof (intro ballI, clarify)
    fix r g r' g'
    assume "(r, g) \<in> set answers" "(r', g') \<in> set answers"
    with ans have "assigned library' r = Some g" "assigned library' r' = Some g'" by auto
    then have "(r' = r \<longrightarrow> g' = g) \<and> (same_namespace r r' \<and> g' = g \<longrightarrow> r' = r)" by (rule pair)
    then show "(r' = r \<longrightarrow> g' = g) \<and> (same_namespace r r' \<and> g' = g \<longrightarrow> r' = r)" .
  qed
  have before: "\<forall>r g. assigned library r = Some g \<longrightarrow>
            (\<forall>(r', g')\<in>set answers.
               (r' = r \<longrightarrow> g' = g) \<and> (same_namespace r r' \<and> g' = g \<longrightarrow> r' = r))"
  proof (intro allI impI ballI, clarify)
    fix r g r' g'
    assume "assigned library r = Some g" "(r', g') \<in> set answers"
    with ans kept have "assigned library' r = Some g" "assigned library' r' = Some g'" by auto
    then have "(r' = r \<longrightarrow> g' = g) \<and> (same_namespace r r' \<and> g' = g \<longrightarrow> r' = r)" by (rule pair)
    then show "(r' = r \<longrightarrow> g' = g) \<and> (same_namespace r r' \<and> g' = g \<longrightarrow> r' = r)" .
  qed
  from among before ok ans show ?thesis by (intro conjI)
qed


theorem allocate_once_witness:
  "analyze_runs
     [(connect_callbacks, [PatternId ''Button'', PropertyId ''Button'' ''label'',
                           PropertyId ''Button'' ''size'']),
      (update_callbacks, [PatternId ''Link'', PatternId ''Button'',
                          PropertyId ''Button'' ''label''])] demo_library =
     ([(PatternId ''Button'', 1), (PropertyId ''Button'' ''label'', 1),
       (PropertyId ''Button'' ''size'', 2), (PatternId ''Link'', 2),
       (PatternId ''Button'', 1), (PropertyId ''Button'' ''label'', 1)],
      \<lparr>lib_id = ''lib'', patternIds = [(''Button'', 1), (''Link'', 2)],
       propertyIds = [((''Button'', ''label''), 1), ((''Button'', ''size''), 2)],
       slotIds = [], enumOptionIds = []\<rparr>) \<and>
   assigned \<lparr>lib_id = ''lib'', patternIds = [(''Button'', 1), (''Link'', 2)],
       propertyIds = [((''Button'', ''label''), 1), ((''Button'', ''size''), 2)],
       slotIds = [], enumOptionIds = []\<rparr> (PatternId ''Link'') = Some 2"
proof -
  have ok: "library_ok demo_library"
    by (simp add: library_ok_def collision_free_def demo_library_def)
  have cbs: "\<forall>(cbs, reqs)\<in>set
     [(connect_callbacks, [PatternId ''Button'', PropertyId ''Button'' ''label'',
                           PropertyId ''Button'' ''size'']),
      (update_callbacks, [PatternId ''Link'', PatternId ''Button'',
                          PropertyId ''Button'' ''label''])].
     cbs = connect_callbacks \<or> cbs = update_callbacks"
    by simp
  have run: "analyze_runs
     [(connect_callbacks, [PatternId ''Button'', PropertyId ''Button'' ''label'',
                           PropertyId ''Button'' ''size'']),
      (update_callbacks, [PatternId ''Link'', PatternId ''Button'',
                          PropertyId ''Button'' ''label''])] demo_library =
     ([(PatternId ''Button'', 1), (PropertyId ''Button'' ''label'', 1),
       (PropertyId ''Button'' ''size'', 2), (PatternId ''Link'', 2),
       (PatternId ''Button'', 1), (PropertyId ''Button'' ''label'', 1)],
      \<lparr>lib_id = ''lib'', patternIds = [(''Button'', 1), (''Link'', 2)],
       propertyIds = [((''Button'', ''label''), 1), ((''Button'', ''size''), 2)],
       slotIds = [], enumOptionIds = []\<rparr>)"
    by (simp add: connect_callbacks_def update_callbacks_def assignPatternId_def
        assignPropertyId_def assign_id_def fresh_id_def demo_library_def)
  from allocate_once [OF ok cbs run] have
    "\<forall>(r, g)\<in>set [(PatternId ''Button'', 1), (PropertyId ''Button'' ''label'', 1),
       (PropertyId ''Button'' ''size'', 2), (PatternId ''Link'', 2),
       (PatternId ''Button'', 1), (PropertyId ''Button'' ''label'', 1 :: nat)].
      assigned \<lparr>lib_id = ''lib'', patternIds = [(''Button'', 1), (''Link'', 2)],
       propertyIds = [((''Button'', ''label''), 1), ((''Button'', ''size''), 2)],
       slotIds = [], enumOptionIds = []\<rparr> r = Some g"
    by blast
  then have "assigned \<lparr>lib_id = ''lib'', patternIds = [(''Button'', 1), (''Link'', 2)],
       propertyIds = [((''Button'', ''label''), 1), ((''Button'', ''size''), 2)],
       slotIds = [], enumOptionIds = []\<rparr> (PatternId ''Link'') = Some 2"
    by simp
  with run show ?thesis by (intro conjI)
qed

section \<open>Replies of the request handlers\<close>

lemma findE_total:
  "(\<And>x. x \<in> set xs \<Longrightarrow> p x = Inr (q x)) \<Longrightarrow> findE p xs = Inr (find q xs)"
  by (induction xs) auto

lemma find_filter:
  "find p (filter q xs) =
     (case filter (\<lambda>x. q x \<and> p x) xs of [] \<Rightarrow> None | c # rest \<Rightarrow> Some c)"
  by (induction xs) auto

lemma is_connection_record: "is_connection (JObj r) = Inr (well_formed r)"
  by (simp add: is_connection_def well_formed_def)

lemma strict_eq_JStr: "strict_eq v (JStr i) = (v = JStr i)"
  by (cases v) auto

lemma check_each_records:
  "check_each env m (map JObj rs) =
     (map (\<lambda>r. Send \<lparr>msg_id = msg_id m, msg_type = CheckLibraryResponse,
                     msg_payload = JArr [JObj [(''id'', field r ''id''), (''path'', field r ''path''),
                       (''connected'', JBool (Fs_exists env (field r ''path'')))]]\<rparr>) rs, None)"
  by (induction rs) auto

lemma sent_map_Send: "sent (map (\<lambda>r. Send (f r)) rs) = map f rs"
  by (induction rs) auto

lemma check_each_sent:
  "check_each env m cs = (es, t) \<Longrightarrow> r \<in> set (sent es) \<Longrightarrow>
     msg_id r = msg_id m \<and> msg_type r = CheckLibraryResponse"
  by (induction cs arbitrary: r es t) (auto split: sum.splits prod.splits)

lemma check_library_records:
  assumes "stored_connections s = JArr (map JObj records)" and "msg_payload m = JObj wanted"
  shows "case_CheckLibraryRequest env s m =
     finish s (map (\<lambda>r. Send \<lparr>msg_id = msg_id m, msg_type = CheckLibraryResponse,
                     msg_payload = JArr [JObj [(''id'', field r ''id''), (''path'', field r ''path''),
                       (''connected'', JBool (Fs_exists env (field r ''path'')))]]\<rparr>)
       (filter (\<lambda>r. strict_eq (field r ''id'') (field wanted ''id'')) records))"
proof -
  have "filterE (\<lambda>c. case get_prop c ''id'' of
                               Inl e \<Rightarrow> Inl e
                             | Inr i \<Rightarrow>
                                 (case get_prop (JObj wanted) ''id'' of
                                    Inl e \<Rightarrow> Inl e
                                  | Inr w \<Rightarrow> Inr (strict_eq i w))) (map JObj records) =
        Inr (map JObj (filter (\<lambda>r. strict_eq (field r ''id'') (field wanted ''id'')) records))"
    by (induction records) auto
  then show ?thesis using assms
    by (simp add: case_CheckLibraryRequest_def check_each_records cong: sum.case_cong)
qed

lemma update_records:
  assumes "stored_connections s = JArr (map JObj records)"
  shows "case_UpdatePatternLibraryRequest env s m =
     (case filter (\<lambda>r. well_formed r \<and>
                field r ''id'' = JStr (getId (getPatternLibrary env (Project_from env (msg_payload m)))))
             records of
        [] \<Rightarrow> finish s []
      | c # rest \<Rightarrow>
          finish s [Send \<lparr>msg_id = msg_id m, msg_type = ConnectPatternLibraryResponse,
            msg_payload = Analyzer_analyze env (field c ''path'') update_callbacks
              (getPatternLibrary env (Project_from env (msg_payload m)))\<rparr>])"
proof -
  let ?id = "getId (getPatternLibrary env (Project_from env (msg_payload m)))"
  let ?valid = "map JObj (filter well_formed records)"
  have f: "filterE is_connection (map JObj records) = Inr ?valid"
    by (induction records) (auto simp: is_connection_record)
  have g: "findE (\<lambda>c. case get_prop c ''id'' of
                                 Inl e \<Rightarrow> Inl e
                               | Inr i \<Rightarrow> Inr (strict_eq i (JStr ?id))) ?valid =
           Inr (find (\<lambda>c. case c of JObj r \<Rightarrow> field r ''id'' = JStr ?id | _ \<Rightarrow> False) ?valid)"
    by (rule findE_total) (auto simp: strict_eq_JStr)
  have h: "find (\<lambda>c. case c of JObj r \<Rightarrow> field r ''id'' = JStr ?id | _ \<Rightarrow> False) ?valid =
           map_option JObj (find (\<lambda>r. field r ''id'' = JStr ?id) (filter well_formed records))"
    by (induction records) auto
  show ?thesis using assms
    by (simp add: case_UpdatePatternLibraryRequest_def Let_def f g h find_filter
        split: list.splits)
qed

text \<open>
  When the store holds a list of records (objects) and the payload is an object, a
  Check-library request is answered with one \<open>CheckLibraryResponse\<close> per stored
  record whose id is strictly equal to the requested id, well formed or not; each reply
  carries the request's id and a one-element list with the record's id, its path, and
  \<open>connected\<close>, which is what \<open>Fs.exists\<close> says of that path.
\<close>

lemma check_library_replies:
  "msg_type m = CheckLibraryRequest \<Longrightarrow>
   stored_connections s = JArr (map JObj records) \<Longrightarrow>
   msg_payload m = JObj wanted \<Longrightarrow>
     out_thrown (receive_handler env s (Some m)) = None \<and>
     replies env s m =
       map (\<lambda>r. \<lparr>msg_id = msg_id m, msg_type = CheckLibraryResponse,
                 msg_payload = JArr [JObj [(''id'', field r ''id''), (''path'', field r ''path''),
                   (''connected'', JBool (Fs_exists env (field r ''path'')))]]\<rparr>)
         (filter (\<lambda>r. strict_eq (field r ''id'') (field wanted ''id'')) records)"
  by (simp add: replies_dispatch receive_handler_def Let_def check_library_records finish_def
      sent_map_Send)

lemma check_library_replies_witness:
  "replies demo_env
     (demo_state\<lparr>connections := JArr
        [JObj [(''id'', JStr ''lib''), (''path'', JStr ''/lib'')],
         JObj [(''id'', JStr ''other''), (''path'', JStr ''/lib'')],
         JObj [(''id'', JStr ''lib''), (''path'', JStr ''/gone'')]]\<rparr>)
     \<lparr>msg_id = JStr ''5'', msg_type = CheckLibraryRequest,
      msg_payload = JObj [(''id'', JStr ''lib'')]\<rparr> =
     [\<lparr>msg_id = JStr ''5'', msg_type = CheckLibraryResponse,
       msg_payload = JArr [JObj [(''id'', JStr ''lib''), (''path'', JStr ''/lib''),
                                 (''connected'', JBool True)]]\<rparr>,
      \<lparr>msg_id = JStr ''5'', msg_type = CheckLibraryResponse,
       msg_payload = JArr [JObj [(''id'', JStr ''lib''), (''path'', JStr ''/gone''),
                                 (''connected'', JBool False)]]\<rparr>]"
  using check_library_replies
    [of "\<lparr>msg_id = JStr ''5'', msg_type = CheckLibraryRequest,
          msg_payload = JObj [(''id'', JStr ''lib'')]\<rparr>"
        "demo_state\<lparr>connections := JArr
          [JObj [(''id'', JStr ''lib''), (''path'', JStr ''/lib'')],
           JObj [(''id'', JStr ''other''), (''path'', JStr ''/lib'')],
           JObj [(''id'', JStr ''lib''), (''path'', JStr ''/gone'')]]\<rparr>"
        "[[(''id'', JStr ''lib''), (''path'', JStr ''/lib'')],
          [(''id'', JStr ''other''), (''path'', JStr ''/lib'')],
          [(''id'', JStr ''lib''), (''path'', JStr ''/gone'')]]"
        "[(''id'', JStr ''lib'')]" demo_env]
  by (simp add: stored_connections_def field_def demo_env_def)

text \<open>
  When the store holds a list of records (objects), an Update-pattern-library request
  for which no well-formed stored record has the id of the request's PatternLibrary gets
  no reply; otherwise the Analyzer is run on the path of the first such record, with
  callbacks that are the same as those of the Connect-pattern-library handler, and the
  analysis is sent in exactly one reply with the request's id and the tag
  \<open>ConnectPatternLibraryResponse\<close>.
\<close>

lemma update_pattern_library:
  "msg_type m = UpdatePatternLibraryRequest \<Longrightarrow>
   stored_connections s = JArr (map JObj records) \<Longrightarrow>
   library = getPatternLibrary env (Project_from env (msg_payload m)) \<Longrightarrow>
   matching = filter (\<lambda>r. well_formed r \<and> field r ''id'' = JStr (getId library)) records \<Longrightarrow>
     (matching = [] \<longrightarrow> replies env s m = []) \<and>
     (\<forall>c rest. matching = c # rest \<longrightarrow>
        replies env s m =
          [\<lparr>msg_id = msg_id m, msg_type = ConnectPatternLibraryResponse,
            msg_payload = Analyzer_analyze env (field c ''path'') update_callbacks library\<rparr>]) \<and>
     update_callbacks = connect_callbacks \<and>
     (\<forall>m' p. msg_type m' = ConnectPatternLibraryRequest \<and>
        first_path (showOpenDialog env) = Some p \<and> p \<noteq> [] \<longrightarrow>
        replies env s m' =
          [\<lparr>msg_id = msg_id m', msg_type = ConnectPatternLibraryResponse,
            msg_payload = Analyzer_analyze env (JStr p) connect_callbacks
              (getPatternLibrary env (Project_from env (msg_payload m')))\<rparr>])"
  by (auto simp: replies_dispatch update_records finish_def case_ConnectPatternLibraryRequest_def
      Let_def update_callbacks_def connect_callbacks_def)


lemma update_pattern_library_witness:
  "replies demo_env
     (demo_state\<lparr>connections := JArr
        [JObj [(''id'', JStr ''lib''), (''path'', JNum 5)],
         JObj [(''id'', JStr ''lib''), (''path'', JStr ''/lib'')],
         JObj [(''id'', JStr ''other''), (''path'', JStr ''/gone'')]]\<rparr>)
     \<lparr>msg_id = JStr ''6'', msg_type = UpdatePatternLibraryRequest, msg_payload = JObj []\<rparr> =
     [\<lparr>msg_id = JStr ''6'', msg_type = ConnectPatternLibraryResponse,
       msg_payload = JObj [(''path'', JStr ''/lib'')]\<rparr>] \<and>
   replies demo_env demo_state
     \<lparr>msg_id = JStr ''6'', msg_type = UpdatePatternLibraryRequest, msg_payload = JObj []\<rparr> = []"
proof -
  let ?m = "\<lparr>msg_id = JStr ''6'', msg_type = UpdatePatternLibraryRequest, msg_payload = JObj []\<rparr>"
  let ?records = "[[(''id'', JStr ''lib''), (''path'', JNum 5)],
         [(''id'', JStr ''lib''), (''path'', JStr ''/lib'')],
         [(''id'', JStr ''other''), (''path'', JStr ''/gone'')]]"
  let ?s = "demo_state\<lparr>connections := JArr (map JObj ?records)\<rparr>"
  have t: "msg_type ?m = UpdatePatternLibraryRequest" by simp
  have full: "stored_connections ?s = JArr (map JObj ?records)"
    by (simp add: stored_connections_def)
  have empty: "stored_connections demo_state = JArr (map JObj [])"
    by (simp add: stored_connections_def demo_state_def)
  from update_pattern_library [OF t full refl refl, of demo_env]
    update_pattern_library [OF t empty refl refl, of demo_env]
  show ?thesis
    by (simp add: demo_env_def demo_library_def getId_def well_formed_def field_def)
qed

lemma one_CreateNewFile:
  "sent (out_effects (case_CreateNewFileRequest env s m)) = [] \<or>
   (\<exists>r. sent (out_effects (case_CreateNewFileRequest env s m)) = [r] \<and>
        msg_id r = msg_id m \<and> msg_type r = CreateNewFileResponse)"
  by (auto simp: case_CreateNewFileRequest_def finish_def Let_def split: option.splits)

lemma one_OpenFile:
  "sent (out_effects (case_OpenFileRequest env s m)) = [] \<or>
   (\<exists>r. sent (out_effects (case_OpenFileRequest env s m)) = [r] \<and>
        msg_id r = msg_id m \<and> msg_type r = OpenFileResponse)"
  by (auto simp: case_OpenFileRequest_def finish_def Let_def
      split: option.splits PersistenceResult.splits)

lemma one_AssetRead:
  "sent (out_effects (case_AssetReadRequest env s m)) = [] \<or>
   (\<exists>r. sent (out_effects (case_AssetReadRequest env s m)) = [r] \<and>
        msg_id r = msg_id m \<and> msg_type r = AssetReadResponse)"
  by (auto simp: case_AssetReadRequest_def finish_def throw_def Let_def
      split: option.splits list.splits sum.splits)

lemma one_CreateScriptBundle:
  "sent (out_effects (case_CreateScriptBundleRequest env s m)) = [] \<or>
   (\<exists>r. sent (out_effects (case_CreateScriptBundleRequest env s m)) = [r] \<and>
        msg_id r = msg_id m \<and> msg_type r = CreateScriptBundleResponse)"
  by (auto simp: case_CreateScriptBundleRequest_def finish_def split: compile_result.splits)

lemma one_ConnectPatternLibrary:
  "sent (out_effects (case_ConnectPatternLibraryRequest env s m)) = [] \<or>
   (\<exists>r. sent (out_effects (case_ConnectPatternLibraryRequest env s m)) = [r] \<and>
        msg_id r = msg_id m \<and> msg_type r = ConnectPatternLibraryResponse)"
  by (auto simp: case_ConnectPatternLibraryRequest_def finish_def Let_def split: option.splits)

lemma one_UpdatePatternLibrary:
  "sent (out_effects (case_UpdatePatternLibraryRequest env s m)) = [] \<or>
   (\<exists>r. sent (out_effects (case_UpdatePatternLibraryRequest env s m)) = [r] \<and>
        msg_id r = msg_id m \<and> msg_type r = ConnectPatternLibraryResponse)"
  by (auto simp: case_UpdatePatternLibraryRequest_def finish_def throw_def Let_def
      split: option.splits sum.splits)

lemma all_CheckLibrary:
  "r \<in> set (sent (out_effects (case_CheckLibraryRequest env s m))) \<Longrightarrow>
     msg_id r = msg_id m \<and> msg_type r = CheckLibraryResponse"
  by (auto simp: case_CheckLibraryRequest_def finish_def throw_def
      split: sum.splits prod.splits option.splits dest: check_each_sent)

lemma silent_CreateNewFile:
  "sent (out_effects (case_CreateNewFileRequest env s m)) = [] \<longleftrightarrow>
     \<not> truthy_path (showSaveDialog env)"
  by (auto simp: case_CreateNewFileRequest_def finish_def Let_def split: option.splits)

lemma silent_OpenFile:
  "sent (out_effects (case_OpenFileRequest env s m)) = [] \<longleftrightarrow>
     \<not> truthy_path (first_path (showOpenDialog env)) \<or>
     (\<exists>p cause. first_path (showOpenDialog env) = Some p \<and> Persistence_read env p = Error cause)"
  by (auto simp: case_OpenFileRequest_def finish_def Let_def
      split: option.splits PersistenceResult.splits)

lemma silent_AssetRead:
  "sent (out_effects (case_AssetReadRequest env s m)) = [] \<longleftrightarrow>
     \<not> truthy_path (first_path (showOpenDialog env)) \<or>
     (\<exists>p e. first_path (showOpenDialog env) = Some p \<and> readFile env p = Inl e)"
  by (auto simp: case_AssetReadRequest_def finish_def throw_def Let_def
      split: option.splits list.splits sum.splits)

lemma silent_CreateScriptBundle:
  "sent (out_effects (case_CreateScriptBundleRequest env s m)) = [] \<longleftrightarrow>
     (\<exists>err. compiler_run env = CompileFailed err)"
  by (auto simp: case_CreateScriptBundleRequest_def finish_def split: compile_result.splits)

lemma silent_ConnectPatternLibrary:
  "sent (out_effects (case_ConnectPatternLibraryRequest env s m)) = [] \<longleftrightarrow>
     \<not> truthy_path (first_path (showOpenDialog env))"
  by (auto simp: case_ConnectPatternLibraryRequest_def finish_def Let_def split: option.splits)

lemma silent_UpdatePatternLibrary:
  "stored_connections s = JArr (map JObj records) \<Longrightarrow>
   sent (out_effects (case_UpdatePatternLibraryRequest env s m)) = [] \<longleftrightarrow>
     filter (\<lambda>r. well_formed r \<and>
       field r ''id'' = JStr (getId (getPatternLibrary env (Project_from env (msg_payload m)))))
       records = []"
  by (simp add: update_records finish_def split: list.splits)

text \<open>
  What the handler does send: a request of the six single-reply types is answered
  with no envelope or with exactly one, which carries the request's id and the response
  tag of that request. It is answered with none exactly when the dialog yields no path,
  when reading the chosen file fails, when the build fails, or, on a stored list of
  records, when no stored Connection has the library's id. Every reply to a Check-library
  request carries the request's id, and on a stored list of records there is one reply
  per record whose id is the requested one.
\<close>

lemma router_replies:
  "(msg_type m \<in> {CreateNewFileRequest, OpenFileRequest, AssetReadRequest,
        CreateScriptBundleRequest, ConnectPatternLibraryRequest, UpdatePatternLibraryRequest} \<longrightarrow>
      replies env s m = [] \<or>
      (\<exists>r. replies env s m = [r] \<and> msg_id r = msg_id m \<and>
           msg_type r = response_type (msg_type m))) \<and>
   (msg_type m = CheckLibraryRequest \<longrightarrow>
      (\<forall>r\<in>set (replies env s m).
         msg_id r = msg_id m \<and> msg_type r = response_type (msg_type m)) \<and>
      (\<forall>records wanted.
         stored_connections s = JArr (map JObj records) \<and> msg_payload m = JObj wanted \<longrightarrow>
         length (replies env s m) =
           length (filter (\<lambda>r. strict_eq (field r ''id'') (field wanted ''id'')) records))) \<and>
   (msg_type m = CreateNewFileRequest \<longrightarrow>
      (replies env s m = [] \<longleftrightarrow> \<not> truthy_path (showSaveDialog env))) \<and>
   (msg_type m = OpenFileRequest \<longrightarrow>
      (replies env s m = [] \<longleftrightarrow>
         \<not> truthy_path (first_path (showOpenDialog env)) \<or>
         (\<exists>p cause. first_path (showOpenDialog env) = Some p \<and>
            Persistence_read env p = Error cause))) \<and>
   (msg_type m = AssetReadRequest \<longrightarrow>
      (replies env s m = [] \<longleftrightarrow>
         \<not> truthy_path (first_path (showOpenDialog env)) \<or>
         (\<exists>p e. first_path (showOpenDialog env) = Some p \<and> readFile env p = Inl e))) \<and>
   (msg_type m = CreateScriptBundleRequest \<longrightarrow>
      (replies env s m = [] \<longleftrightarrow> (\<exists>err. compiler_run env = CompileFailed err))) \<and>
   (msg_type m = ConnectPatternLibraryRequest \<longrightarrow>
      (replies env s m = [] \<longleftrightarrow> \<not> truthy_path (first_path (showOpenDialog env)))) \<and>
   (msg_type m = UpdatePatternLibraryRequest \<longrightarrow>
      (\<forall>records. stored_connections s = JArr (map JObj records) \<longrightarrow>
         (replies env s m = [] \<longleftrightarrow>
            filter (\<lambda>r. well_formed r \<and>
              field r ''id'' =
                JStr (getId (getPatternLibrary env (Project_from env (msg_payload m)))))
              records = [])))"
proof -
  have single: "msg_type m \<in> {CreateNewFileRequest, OpenFileRequest, AssetReadRequest,
        CreateScriptBundleRequest, ConnectPatternLibraryRequest, UpdatePatternLibraryRequest} \<longrightarrow>
      replies env s m = [] \<or>
      (\<exists>r. replies env s m = [r] \<and> msg_id r = msg_id m \<and>
           msg_type r = response_type (msg_type m))"
  proof
    assume "msg_type m \<in> {CreateNewFileRequest, OpenFileRequest, AssetReadRequest,
        CreateScriptBundleRequest, ConnectPatternLibraryRequest, UpdatePatternLibraryRequest}"
    then consider "msg_type m = CreateNewFileRequest" | "msg_type m = OpenFileRequest"
      | "msg_type m = AssetReadRequest" | "msg_type m = CreateScriptBundleRequest"
      | "msg_type m = ConnectPatternLibraryRequest" | "msg_type m = UpdatePatternLibraryRequest"
      by auto
    then show "replies env s m = [] \<or>
      (\<exists>r. replies env s m = [r] \<and> msg_id r = msg_id m \<and>
           msg_type r = response_type (msg_type m))"
    proof cases
      case 1
      then show ?thesis using one_CreateNewFile [of env s m] by (simp add: replies_dispatch)
    next
      case 2
      then show ?thesis using one_OpenFile [of env s m] by (simp add: replies_dispatch)
    next
      case 3
      then show ?thesis using one_AssetRead [of env s m] by (simp add: replies_dispatch)
    next
      case 4
      then show ?thesis using one_CreateScriptBundle [of env s m] by (simp add: replies_dispatch)
    next
      case 5
      then show ?thesis using one_ConnectPatternLibrary [of env s m] by (simp add: replies_dispatch)
    next
      case 6
      then show ?thesis using one_UpdatePatternLibrary [of env s m] by (simp add: replies_dispatch)
    qed
  qed
  have several: "msg_type m = CheckLibraryRequest \<longrightarrow>
      (\<forall>r\<in>set (replies env s m).
         msg_id r = msg_id m \<and> msg_type r = response_type (msg_type m)) \<and>
      (\<forall>records wanted.
         stored_connections s = JArr (map JObj records) \<and> msg_payload m = JObj wanted \<longrightarrow>
         length (replies env s m) =
           length (filter (\<lambda>r. strict_eq (field r ''id'') (field wanted ''id'')) records))"
  proof (intro impI conjI)
    assume t: "msg_type m = CheckLibraryRequest"
    show "\<forall>r\<in>set (replies env s m).
         msg_id r = msg_id m \<and> msg_type r = response_type (msg_type m)"
      using t all_CheckLibrary [of _ env s m] by (simp add: replies_dispatch)
    show "\<forall>records wanted.
         stored_connections s = JArr (map JObj records) \<and> msg_payload m = JObj wanted \<longrightarrow>
         length (replies env s m) =
           length (filter (\<lambda>r. strict_eq (field r ''id'') (field wanted ''id'')) records)"
      using t by (auto simp: replies_dispatch check_library_records finish_def sent_map_Send)
  qed
  have create: "msg_type m = CreateNewFileRequest \<longrightarrow>
      (replies env s m = [] \<longleftrightarrow> \<not> truthy_path (showSaveDialog env))"
    using silent_CreateNewFile [of env s m] by (simp add: replies_dispatch)
  have openfile: "msg_type m = OpenFileRequest \<longrightarrow>
      (replies env s m = [] \<longleftrightarrow>
         \<not> truthy_path (first_path (showOpenDialog env)) \<or>
         (\<exists>p cause. first_path (showOpenDialog env) = Some p \<and>
            Persistence_read env p = Error cause))"
    using silent_OpenFile [of env s m] by (simp add: replies_dispatch)
  have asset: "msg_type m = AssetReadRequest \<longrightarrow>
      (replies env s m = [] \<longleftrightarrow>
         \<not> truthy_path (first_path (showOpenDialog env)) \<or>
         (\<exists>p e. first_path (showOpenDialog env) = Some p \<and> readFile env p = Inl e))"
    using silent_AssetRead [of env s m] by (simp add: replies_dispatch)
  have built: "msg_type m = CreateScriptBundleRequest \<longrightarrow>
      (replies env s m = [] \<longleftrightarrow> (\<exists>err. compiler_run env = CompileFailed err))"
    using silent_CreateScriptBundle [of env s m] by (simp add: replies_dispatch)
  have connect: "msg_type m = ConnectPatternLibraryRequest \<longrightarrow>
      (replies env s m = [] \<longleftrightarrow> \<not> truthy_path (first_path (showOpenDialog env)))"
    using silent_ConnectPatternLibrary [of env s m] by (simp add: replies_dispatch)
  have update: "msg_type m = UpdatePatternLibraryRequest \<longrightarrow>
      (\<forall>records. stored_connections s = JArr (map JObj records) \<longrightarrow>
         (replies env s m = [] \<longleftrightarrow>
            filter (\<lambda>r. well_formed r \<and>
              field r ''id'' =
                JStr (getId (getPatternLibrary env (Project_from env (msg_payload m)))))
              records = []))"
    using silent_UpdatePatternLibrary [of s _ env m] by (simp add: replies_dispatch)
  from single several create openfile asset built connect update show ?thesis
    by (intro conjI)
qed

lemma router_replies_witness:
  "length (replies demo_env demo_state
      \<lparr>msg_id = JStr ''2'', msg_type = OpenFileRequest, msg_payload = JUndefined\<rparr>) \<le> 1 \<and>
   length (replies demo_env
     (demo_state\<lparr>connections := JArr
        [JObj [(''id'', JStr ''lib''), (''path'', JStr ''/lib'')],
         JObj [(''id'', JStr ''lib''), (''path'', JStr ''/gone'')]]\<rparr>)
     \<lparr>msg_id = JStr ''5'', msg_type = CheckLibraryRequest,
      msg_payload = JObj [(''id'', JStr ''lib'')]\<rparr>) = 2"
proof -
  let ?open = "\<lparr>msg_id = JStr ''2'', msg_type = OpenFileRequest, msg_payload = JUndefined\<rparr>"
  let ?check = "\<lparr>msg_id = JStr ''5'', msg_type = CheckLibraryRequest,
      msg_payload = JObj [(''id'', JStr ''lib'')]\<rparr>"
  let ?records = "[[(''id'', JStr ''lib''), (''path'', JStr ''/lib'')],
         [(''id'', JStr ''lib''), (''path'', JStr ''/gone'')]]"
  let ?s = "demo_state\<lparr>connections := JArr (map JObj ?records)\<rparr>"
  have "replies demo_env demo_state ?open = [] \<or>
      (\<exists>r. replies demo_env demo_state ?open = [r] \<and> msg_id r = msg_id ?open \<and>
           msg_type r = response_type (msg_type ?open))"
    using router_replies [of ?open demo_env demo_state, THEN conjunct1] by simp
  then have one: "length (replies demo_env demo_state ?open) \<le> 1" by auto
  have stored: "stored_connections ?s = JArr (map JObj ?records) \<and>
      msg_payload ?check = JObj [(''id'', JStr ''lib'')]"
    by (simp add: stored_connections_def)
  have t: "msg_type ?check = CheckLibraryRequest" by simp
  have "length (replies demo_env ?s ?check) =
      length (filter (\<lambda>r. strict_eq (field r ''id'') (field [(''id'', JStr ''lib'')] ''id''))
        ?records)"
    by (rule router_replies [of ?check demo_env ?s, THEN conjunct2, THEN conjunct1,
          THEN mp, OF t, THEN conjunct2, THEN spec, THEN spec, THEN mp, OF stored])
  then have two: "length (replies demo_env ?s ?check) = 2" by (simp add: field_def)
  from one two show ?thesis by simp
qed

text \<open>
  Claim C8 at a stored list whose only record has an id and no path. The Check-library
  handler matches the record and answers with it, its path undefined; the
  Update-pattern-library handler and the Connected-pattern-library notification drop the
  same record.
\<close>

theorem check_library_keeps_malformed_record:
  "replies demo_env
     (demo_state\<lparr>connections := JArr [JObj [(''id'', JStr ''lib'')]]\<rparr>)
     \<lparr>msg_id = JStr ''5'', msg_type = CheckLibraryRequest,
      msg_payload = JObj [(''id'', JStr ''lib'')]\<rparr> =
     [\<lparr>msg_id = JStr ''5'', msg_type = CheckLibraryResponse,
       msg_payload = JArr [JObj [(''id'', JStr ''lib''), (''path'', JUndefined),
                                 (''connected'', JBool False)]]\<rparr>] \<and>
   replies demo_env
     (demo_state\<lparr>connections := JArr [JObj [(''id'', JStr ''lib'')]]\<rparr>)
     \<lparr>msg_id = JStr ''6'', msg_type = UpdatePatternLibraryRequest, msg_payload = JObj []\<rparr> = [] \<and>
   connections (out_state (receive_handler demo_env
     (demo_state\<lparr>connections := JArr [JObj [(''id'', JStr ''lib'')]]\<rparr>)
     (Some \<lparr>msg_id = JStr ''4'', msg_type = ConnectedPatternLibraryNotification,
            msg_payload = JObj [(''id'', JStr ''lib''), (''path'', JStr ''/lib'')]\<rparr>))) =
     JArr [JObj [(''id'', JStr ''lib''), (''path'', JStr ''/lib'')]]"
  by (simp add: replies_dispatch receive_handler_def case_CheckLibraryRequest_def
      case_UpdatePatternLibraryRequest_def case_ConnectedPatternLibraryNotification_def
      stored_connections_def is_connection_def field_def uniqWith_def finish_def Let_def
      demo_env_def demo_library_def getId_def)

text \<open>
  Claim C4 at a store that holds the Connection of the library itself instead of a list,
  and at a stored list with a null entry before that Connection. The claim asks for
  exactly one \<open>ConnectPatternLibraryResponse\<close> with the request's id, since a stored
  Connection has the library's id. The Update-pattern-library handler calls \<open>filter\<close>
  on the stored value, and its guard reads \<open>c.path\<close> of the null entry: both raise a
  TypeError and no reply is sent. The same Connection in a list is answered, and the
  Connected-pattern-library notification wraps the stored object into a list before it
  filters.
\<close>

theorem update_pattern_library_raises_on_stored_object:
  "replies demo_env
     (demo_state\<lparr>connections := JObj [(''id'', JStr ''lib''), (''path'', JStr ''/lib'')]\<rparr>)
     \<lparr>msg_id = JStr ''6'', msg_type = UpdatePatternLibraryRequest, msg_payload = JObj []\<rparr> = [] \<and>
   out_thrown (receive_handler demo_env
     (demo_state\<lparr>connections := JObj [(''id'', JStr ''lib''), (''path'', JStr ''/lib'')]\<rparr>)
     (Some \<lparr>msg_id = JStr ''6'', msg_type = UpdatePatternLibraryRequest,
            msg_payload = JObj []\<rparr>)) = Some TypeError \<and>
   replies demo_env
     (demo_state\<lparr>connections :=
        JArr [JNull, JObj [(''id'', JStr ''lib''), (''path'', JStr ''/lib'')]]\<rparr>)
     \<lparr>msg_id = JStr ''6'', msg_type = UpdatePatternLibraryRequest, msg_payload = JObj []\<rparr> = [] \<and>
   out_thrown (receive_handler demo_env
     (demo_state\<lparr>connections :=
        JArr [JNull, JObj [(''id'', JStr ''lib''), (''path'', JStr ''/lib'')]]\<rparr>)
     (Some \<lparr>msg_id = JStr ''6'', msg_type = UpdatePatternLibraryRequest,
            msg_payload = JObj []\<rparr>)) = Some TypeError \<and>
   replies demo_env
     (demo_state\<lparr>connections :=
        JArr [JObj [(''id'', JStr ''lib''), (''path'', JStr ''/lib'')]]\<rparr>)
     \<lparr>msg_id = JStr ''6'', msg_type = UpdatePatternLibraryRequest, msg_payload = JObj []\<rparr> =
     [\<lparr>msg_id = JStr ''6'', msg_type = ConnectPatternLibraryResponse,
       msg_payload = JObj [(''path'', JStr ''/lib'')]\<rparr>] \<and>
   connections (out_state (receive_handler demo_env
     (demo_state\<lparr>connections := JObj [(''id'', JStr ''lib''), (''path'', JStr ''/lib'')]\<rparr>)
     (Some \<lparr>msg_id = JStr ''4'', msg_type = ConnectedPatternLibraryNotification,
            msg_payload = JObj [(''id'', JStr ''other''), (''path'', JStr ''/gone'')]\<rparr>))) =
     JArr [JObj [(''id'', JStr ''lib''), (''path'', JStr ''/lib'')],
           JObj [(''id'', JStr ''other''), (''path'', JStr ''/gone'')]]"
  by (simp add: replies_dispatch receive_handler_def
      case_UpdatePatternLibraryRequest_def case_ConnectedPatternLibraryNotification_def
      stored_connections_def is_connection_def field_def uniqWith_def finish_def throw_def
      Let_def demo_env_def demo_library_def getId_def)

text \<open>
  Claim C5 at the same two stores. The claim asks for one \<open>CheckLibraryResponse\<close> with
  \<open>connected\<close> true, since one stored Connection has the requested id and its path
  exists. The Check-library handler calls \<open>filter\<close> on the stored value and reads
  \<open>c.id\<close> of the null entry: both raise a TypeError and no reply is sent. The same
  Connection alone in a list is answered with \<open>connected\<close> true.
\<close>

theorem check_library_raises_on_stored_object:
  "replies demo_env
     (demo_state\<lparr>connections := JObj [(''id'', JStr ''lib''), (''path'', JStr ''/lib'')]\<rparr>)
     \<lparr>msg_id = JStr ''5'', msg_type = CheckLibraryRequest,
      msg_payload = JObj [(''id'', JStr ''lib'')]\<rparr> = [] \<and>
   out_thrown (receive_handler demo_env
     (demo_state\<lparr>connections := JObj [(''id'', JStr ''lib''), (''path'', JStr ''/lib'')]\<rparr>)
     (Some \<lparr>msg_id = JStr ''5'', msg_type = CheckLibraryRequest,
            msg_payload = JObj [(''id'', JStr ''lib'')]\<rparr>)) = Some TypeError \<and>
   replies demo_env
     (demo_state\<lparr>connections :=
        JArr [JNull, JObj [(''id'', JStr ''lib''), (''path'', JStr ''/lib'')]]\<rparr>)
     \<lparr>msg_id = JStr ''5'', msg_type = CheckLibraryRequest,
      msg_payload = JObj [(''id'', JStr ''lib'')]\<rparr> = [] \<and>
   out_thrown (receive_handler demo_env
     (demo_state\<lparr>connections :=
        JArr [JNull, JObj [(''id'', JStr ''lib''), (''path'', JStr ''/lib'')]]\<rparr>)
     (Some \<lparr>msg_id = JStr ''5'', msg_type = CheckLibraryRequest,
            msg_payload = JObj [(''id'', JStr ''lib'')]\<rparr>)) = Some TypeError \<and>
   replies demo_env
     (demo_state\<lparr>connections :=
        JArr [JObj [(''id'', JStr ''lib''), (''path'', JStr ''/lib'')]]\<rparr>)
     \<lparr>msg_id = JStr ''5'', msg_type = CheckLibraryRequest,
      msg_payload = JObj [(''id'', JStr ''lib'')]\<rparr> =
     [\<lparr>msg_id = JStr ''5'', msg_type = CheckLibraryResponse,
       msg_payload = JArr [JObj [(''id'', JStr ''lib''), (''path'', JStr ''/lib''),
                                 (''connected'', JBool True)]]\<rparr>]"
  by (simp add: replies_dispatch receive_handler_def case_CheckLibraryRequest_def
      stored_connections_def field_def finish_def throw_def Let_def demo_env_def)

text \<open>
  Claim C1 at an Asset-read request whose dialog yields a path that cannot be read. The
  claim asks for exactly one reply with the request's id, since a path was chosen and the
  only silent branch of this request is the absence of one. \<open>readFile\<close> raises, the
  handler has nothing that catches it, and no reply is sent; when the file can be read
  the request is answered with one \<open>AssetReadResponse\<close>.
\<close>

theorem asset_read_failure_sends_no_reply:
  "first_path (showOpenDialog demo_env_unreadable) = Some ''/tmp/a.png'' \<and>
   readFile demo_env_unreadable ''/tmp/a.png'' = Inl IOError \<and>
   replies demo_env_unreadable demo_state
     \<lparr>msg_id = JStr ''9'', msg_type = AssetReadRequest, msg_payload = JUndefined\<rparr> = [] \<and>
   out_thrown (receive_handler demo_env_unreadable demo_state
     (Some \<lparr>msg_id = JStr ''9'', msg_type = AssetReadRequest,
            msg_payload = JUndefined\<rparr>)) = Some IOError \<and>
   replies (demo_env\<lparr>showOpenDialog := Some [''/tmp/a.png'']\<rparr>) demo_state
     \<lparr>msg_id = JStr ''9'', msg_type = AssetReadRequest, msg_payload = JUndefined\<rparr> =
     [\<lparr>msg_id = JStr ''9'', msg_type = AssetReadResponse,
       msg_payload = JStr ''data:image/png;base64,YWJj''\<rparr>]"
  by (simp add: replies_dispatch receive_handler_def case_AssetReadRequest_def
      finish_def throw_def Let_def demo_env_def demo_env_unreadable_def)

section \<open>The preview relay\<close>

text \<open>
  Claim C9, as amended. When the enum members have different values, a preview envelope
  that parses to an object whose type is one of the five recognized tags is relayed as
  exactly one envelope with the same id under the translated message type; its payload is
  the payload received, except for the unselect tag, which is relayed with an undefined
  payload. An envelope that does not parse is logged on the console and dropped, and the
  handler returns. The relay is a function of the envelope alone.
\<close>

theorem preview_relay:
  "inj tag \<Longrightarrow>
     (\<forall>kvs t. JSON_parse envelope = Inr (JObj kvs) \<and> field kvs ''type'' = JStr (tag t) \<longrightarrow>
        client_message tag JSON_parse envelope =
          [SenderSend \<lparr>msg_id = field kvs ''id'', msg_type = translated t,
                       msg_payload = (if t = Preview_UnselectElement then JUndefined
                                      else field kvs ''payload'')\<rparr>]) \<and>
     (\<forall>err. JSON_parse envelope = Inl err \<longrightarrow>
        client_message tag JSON_parse envelope =
          [ConsoleError ''Error while receiving client message'', ConsoleErrorValue err])"
proof (intro conjI allI impI)
  fix kvs t
  assume i: "inj tag"
    and p: "JSON_parse envelope = Inr (JObj kvs) \<and> field kvs ''type'' = JStr (tag t)"
  have eq: "tag a = tag b \<longleftrightarrow> a = b" for a b using i by (auto dest: injD)
  show "client_message tag JSON_parse envelope =
          [SenderSend \<lparr>msg_id = field kvs ''id'', msg_type = translated t,
                       msg_payload = (if t = Preview_UnselectElement then JUndefined
                                      else field kvs ''payload'')\<rparr>]"
    using p by (cases t) (simp_all add: client_message_def eq)
next
  fix err
  assume "JSON_parse envelope = Inl err"
  then show "client_message tag JSON_parse envelope =
          [ConsoleError ''Error while receiving client message'', ConsoleErrorValue err]"
    by (simp add: client_message_def caught_def)
qed

lemma inj_demo_tag: "inj demo_tag"
proof (rule injI)
  fix a b assume "demo_tag a = demo_tag b"
  then show "a = b" by (cases a; cases b) (simp_all add: demo_tag_def)
qed

theorem preview_relay_witness:
  "client_message demo_tag demo_parse ''select'' =
     [SenderSend \<lparr>msg_id = JStr ''7'', msg_type = SelectElement,
                  msg_payload = JStr ''element-1''\<rparr>] \<and>
   client_message demo_tag demo_parse ''{'' =
     [ConsoleError ''Error while receiving client message'', ConsoleErrorValue SyntaxError]"
proof -
  have p: "demo_parse ''select'' =
      Inr (JObj [(''type'', JStr ''select-element''), (''id'', JStr ''7''),
                 (''payload'', JStr ''element-1'')]) \<and>
      field [(''type'', JStr ''select-element''), (''id'', JStr ''7''),
             (''payload'', JStr ''element-1'')] ''type'' = JStr (demo_tag Preview_SelectElement)"
    by (simp add: demo_parse_def field_def demo_tag_def)
  have q: "demo_parse ''{'' = Inl SyntaxError" by (simp add: demo_parse_def)
  have a: "client_message demo_tag demo_parse ''select'' =
     [SenderSend \<lparr>msg_id = field [(''type'', JStr ''select-element''), (''id'', JStr ''7''),
             (''payload'', JStr ''element-1'')] ''id'', msg_type = translated Preview_SelectElement,
         msg_payload = (if Preview_SelectElement = Preview_UnselectElement then JUndefined
           else field [(''type'', JStr ''select-element''), (''id'', JStr ''7''),
             (''payload'', JStr ''element-1'')] ''payload'')\<rparr>]"
    by (rule preview_relay [OF inj_demo_tag, of demo_parse "''select''", THEN conjunct1,
          THEN spec, THEN spec, THEN mp, OF p])
  have b: "client_message demo_tag demo_parse ''{'' =
     [ConsoleError ''Error while receiving client message'', ConsoleErrorValue SyntaxError]"
    by (rule preview_relay [OF inj_demo_tag, of demo_parse "''{''", THEN conjunct2,
          THEN spec, THEN mp, OF q])
  from a b show ?thesis by (simp add: field_def)
qed

theorem preview_relay_unselect_counterexample:
  "demo_parse ''unselect'' =
     Inr (JObj [(''type'', JStr (demo_tag Preview_UnselectElement)), (''id'', JStr ''8''),
                (''payload'', JStr ''element-1'')]) \<and>
   client_message demo_tag demo_parse ''unselect'' =
     [SenderSend \<lparr>msg_id = JStr ''8'', msg_type = UnselectElement, msg_payload = JUndefined\<rparr>]"
  by (simp add: client_message_def demo_parse_def demo_tag_def field_def)

end
